theory Spec2Isabelle
  imports Complex_Main
begin

chapter \<open>The model\<close>

text \<open>
  The repository is an Express application: rule-based filtering of customer records
  (\<open>backend/routes/customers.js\<close>), letter generation and e-mail dispatch routes, and
  request validation (\<open>backend/middleware/validation.js\<close>). This chapter translates the
  functions the properties below are about; the next chapter states and proves the
  properties. Wall-clock values (\<open>processingTime\<close>, \<open>timestamp\<close>, \<open>sentAt\<close>), log lines
  and the pauses between e-mails have no counterpart in the model.
\<close>

section \<open>Batch splitting (letters bulk-generate, e-mail bulk-send)\<close>

text \<open>
  Both bulk routes split the request's customers with the same loop:
  \<^verbatim>\<open>
  const batchSize = options.batchSize || 10;      // bulk-send: || 5
  const batches = [];
  for (let i = 0; i < customers.length; i += batchSize) {
    batches.push(customers.slice(i, i + batchSize));
  }
  \<close>
  The batch size is a whole number here: the contract of the splitter takes an int, and
  a fractional size, which the request schema would let through, is outside it.
  \<open>Array.prototype.slice\<close> clamps its end index to the length of the array. The loop
  is kept as the source has it, an index and an accumulator; with a batch size of 0 the
  source would never leave the loop, which is the value \<open>None\<close> of the model.
\<close>

definition slice :: "'a list \<Rightarrow> nat \<Rightarrow> nat \<Rightarrow> 'a list" where
  "slice xs i j = take (j - i) (drop i xs)"

definition batch_size_or :: "nat \<Rightarrow> nat option \<Rightarrow> nat" where
  \<comment> \<open>\<open>options.batchSize || d\<close>: an absent or zero batch size is falsy.\<close>
  "batch_size_or d b = (case b of None \<Rightarrow> d | Some n \<Rightarrow> if n = 0 then d else n)"

partial_function (option) split_loop ::
  "'a list \<Rightarrow> nat \<Rightarrow> nat \<Rightarrow> 'a list list \<Rightarrow> 'a list list option" where
  "split_loop customers batchSize i batches =
     (if i < length customers
      then split_loop customers batchSize (i + batchSize)
             (batches @ [slice customers i (i + batchSize)])
      else Some batches)"

definition split_batches :: "'a list \<Rightarrow> nat \<Rightarrow> 'a list list option" where
  "split_batches customers batchSize = split_loop customers batchSize 0 []"

section \<open>JavaScript values\<close>

text \<open>
  A customer record is a flat JSON object: field values are strings, numbers, booleans
  or null, and reading an absent field gives \<open>undefined\<close>. Objects are association
  lists, so that the order of the keys (which \<open>normalizeAccountKey\<close> searches with
  \<open>keys.find\<close>) is part of the value. Numbers are exact rationals; the results of
  \<open>parseFloat\<close> and \<open>parseInt\<close> add \<open>NaN\<close> and the two infinities. The rounding,
  overflow and underflow of IEEE doubles are not modelled. Strings are byte strings;
  case folding and white space are those of ASCII, which is what decides the comparisons
  the rules make (against \<open>expired\<close>, \<open>pending\<close>, \<open>expiring\<close>, \<open>student\<close>, \<open>senior\<close>).
\<close>

datatype jsnum = NaN | Fin rat | PosInf | NegInf

datatype jsval = JUndef | JNull | JBool bool | JNum rat | JStr string

type_synonym jsobj = "(string \<times> jsval) list"

definition field :: "jsobj \<Rightarrow> string \<Rightarrow> jsval" where
  \<comment> \<open>\<open>obj.k\<close>\<close>
  "field obj k = (case map_of obj k of None \<Rightarrow> JUndef | Some v \<Rightarrow> v)"

definition obj_set :: "jsobj \<Rightarrow> string \<Rightarrow> jsval \<Rightarrow> jsobj" where
  \<comment> \<open>\<open>obj.k = v\<close> on a copy: an existing key keeps its place, a new key goes last.\<close>
  "obj_set obj k v =
     (if k \<in> fst ` set obj
      then map (\<lambda>kv. if fst kv = k then (k, v) else kv) obj
      else obj @ [(k, v)])"

fun truthy :: "jsval \<Rightarrow> bool" where
  "truthy JUndef = False"
| "truthy JNull = False"
| "truthy (JBool b) = b"
| "truthy (JNum r) = (r \<noteq> 0)"
| "truthy (JStr s) = (s \<noteq> [])"

definition js_or :: "jsval \<Rightarrow> jsval \<Rightarrow> jsval" where
  \<comment> \<open>\<open>a || b\<close>\<close>
  "js_or a b = (if truthy a then a else b)"

definition num_or :: "jsnum \<Rightarrow> jsnum \<Rightarrow> jsnum" where
  \<comment> \<open>\<open>a || b\<close> on a number: \<open>NaN\<close> and \<open>0\<close> are falsy.\<close>
  "num_or a b = (if a = NaN \<or> a = Fin 0 then b else a)"

fun num_le :: "jsnum \<Rightarrow> rat \<Rightarrow> bool" where
  "num_le NaN c = False"
| "num_le (Fin r) c = (r \<le> c)"
| "num_le PosInf c = False"
| "num_le NegInf c = True"

fun num_gt :: "jsnum \<Rightarrow> rat \<Rightarrow> bool" where
  "num_gt NaN c = False"
| "num_gt (Fin r) c = (c < r)"
| "num_gt PosInf c = True"
| "num_gt NegInf c = False"

fun num_ge :: "jsnum \<Rightarrow> jsnum \<Rightarrow> bool" where
  "num_ge NaN y = False"
| "num_ge x NaN = False"
| "num_ge PosInf y = True"
| "num_ge x NegInf = True"
| "num_ge (Fin a) (Fin b) = (b \<le> a)"
| "num_ge (Fin a) PosInf = False"
| "num_ge NegInf y = False"

fun num_add :: "jsnum \<Rightarrow> jsnum \<Rightarrow> jsnum" where
  "num_add NaN y = NaN"
| "num_add x NaN = NaN"
| "num_add (Fin a) (Fin b) = Fin (a + b)"
| "num_add PosInf NegInf = NaN"
| "num_add NegInf PosInf = NaN"
| "num_add PosInf y = PosInf"
| "num_add NegInf y = NegInf"
| "num_add (Fin a) y = y"

fun num_div_count :: "jsnum \<Rightarrow> nat \<Rightarrow> jsnum" where
  "num_div_count (Fin a) n = Fin (a / of_nat n)"
| "num_div_count x n = x"

text \<open>
  Three functions of the JavaScript engine are parameters of the model: the printer of
  numbers (\<open>String(n)\<close>, the shortest round-trip representation), the conversion of a
  string to a number that \<open>>=\<close> applies, and \<open>Date.parse\<close>, whose result on anything but
  the ISO format is left to the engine. \<open>dateParse\<close> returns the time value in
  milliseconds, \<open>None\<close> for an invalid date.
\<close>

record js_engine =
  numToString :: "rat \<Rightarrow> string"
  strToNumber :: "string \<Rightarrow> jsnum"
  dateParse :: "string \<Rightarrow> int option"

fun js_String :: "js_engine \<Rightarrow> jsval \<Rightarrow> string" where
  "js_String E JUndef = ''undefined''"
| "js_String E JNull = ''null''"
| "js_String E (JBool b) = (if b then ''true'' else ''false'')"
| "js_String E (JNum r) = numToString E r"
| "js_String E (JStr s) = s"

fun toNumber :: "js_engine \<Rightarrow> jsval \<Rightarrow> jsnum" where
  "toNumber E JUndef = NaN"
| "toNumber E JNull = Fin 0"
| "toNumber E (JBool b) = Fin (if b then 1 else 0)"
| "toNumber E (JNum r) = Fin r"
| "toNumber E (JStr s) = strToNumber E s"

fun str_ge :: "string \<Rightarrow> string \<Rightarrow> bool" where
  "str_ge s [] = True"
| "str_ge [] (b # t) = False"
| "str_ge (a # s) (b # t) =
     ((of_char b :: nat) < of_char a \<or> (a = b \<and> str_ge s t))"

fun js_ge :: "js_engine \<Rightarrow> jsval \<Rightarrow> jsval \<Rightarrow> bool" where
  \<comment> \<open>\<open>a >= b\<close>: two strings compare as strings, anything else as numbers.\<close>
  "js_ge E (JStr s) (JStr t) = str_ge s t"
| "js_ge E a b = num_ge (toNumber E a) (toNumber E b)"

definition is_upper :: "char \<Rightarrow> bool" where
  "is_upper c = (let n = of_char c :: nat in 65 \<le> n \<and> n \<le> 90)"

definition is_digit :: "char \<Rightarrow> bool" where
  "is_digit c = (let n = of_char c :: nat in 48 \<le> n \<and> n \<le> 57)"

definition is_ws :: "char \<Rightarrow> bool" where
  \<comment> \<open>tab, line feed, vertical tab, form feed, carriage return, space; the white space
      of ECMAScript outside ASCII (the no-break space and others) is not counted\<close>
  "is_ws c = (let n = of_char c :: nat in (9 \<le> n \<and> n \<le> 13) \<or> n = 32)"

definition lower_char :: "char \<Rightarrow> char" where
  "lower_char c =
     (let n = of_char c :: nat
      in if 65 \<le> n \<and> n \<le> 90
         then (case c of Char b0 b1 b2 b3 b4 b5 b6 b7 \<Rightarrow> Char b0 b1 b2 b3 b4 True b6 b7)
         else c)"

definition toLowerCase :: "string \<Rightarrow> string" where
  "toLowerCase s = map lower_char s"

fun starts_with :: "string \<Rightarrow> string \<Rightarrow> bool" where
  "starts_with [] s = True"
| "starts_with (p # ps) [] = False"
| "starts_with (p # ps) (c # cs) = (p = c \<and> starts_with ps cs)"

fun str_includes :: "string \<Rightarrow> string \<Rightarrow> bool" where
  \<comment> \<open>\<open>s.includes(p)\<close>\<close>
  "str_includes [] p = (p = [])"
| "str_includes (c # cs) p = (starts_with p (c # cs) \<or> str_includes cs p)"

fun exists_suffix :: "(string \<Rightarrow> bool) \<Rightarrow> string \<Rightarrow> bool" where
  "exists_suffix P [] = P []"
| "exists_suffix P (c # cs) = (P (c # cs) \<or> exists_suffix P cs)"

subsection \<open>parseFloat, parseInt, Date\<close>

text \<open>
  \<open>parseFloat\<close> and \<open>parseInt(_, 10)\<close> convert their argument to a string, skip leading
  white space and read the longest prefix that is a decimal literal (an optional sign,
  digits, for \<open>parseFloat\<close> also a fraction, an exponent and \<open>Infinity\<close>); without such
  a prefix the result is \<open>NaN\<close>. Applied to a number, \<open>parseFloat\<close> gives the number
  back, as the printer round-trips. \<open>parseInt\<close> of a number reads the digits the printer
  writes before the first \<open>.\<close> or \<open>e\<close>: the integer part in the range where numbers are
  printed without an exponent (from \<open>1e-6\<close> up to \<open>1e21\<close>), the leading digit elsewhere.
\<close>

definition digits_val :: "string \<Rightarrow> nat" where
  "digits_val ds = foldl (\<lambda>a c. 10 * a + (of_char c - 48)) 0 ds"

definition pow10 :: "int \<Rightarrow> rat" where
  "pow10 e = (if 0 \<le> e then 10 ^ nat e else 1 / 10 ^ nat (- e))"

definition exponent_part :: "string \<Rightarrow> int" where
  "exponent_part s =
     (case s of
        [] \<Rightarrow> 0
      | c # r \<Rightarrow>
          if c = CHR ''e'' \<or> c = CHR ''E'' then
            (let neg = (r \<noteq> [] \<and> hd r = CHR ''-'');
                 u = (if r \<noteq> [] \<and> (hd r = CHR ''-'' \<or> hd r = CHR ''+'') then tl r else r);
                 ds = takeWhile is_digit u
             in if ds = [] then 0 else if neg then - int (digits_val ds) else int (digits_val ds))
          else 0)"

definition parseFloat_str :: "string \<Rightarrow> jsnum" where
  "parseFloat_str s =
     (let t = dropWhile is_ws s;
          neg = (t \<noteq> [] \<and> hd t = CHR ''-'');
          u = (if t \<noteq> [] \<and> (hd t = CHR ''-'' \<or> hd t = CHR ''+'') then tl t else t)
      in if starts_with ''Infinity'' u then (if neg then NegInf else PosInf)
         else
           (let ip = takeWhile is_digit u;
                r1 = dropWhile is_digit u;
                dot = (r1 \<noteq> [] \<and> hd r1 = CHR ''.'');
                fp = (if dot then takeWhile is_digit (tl r1) else []);
                r2 = (if dot then dropWhile is_digit (tl r1) else r1);
                m = of_nat (digits_val ip) + of_nat (digits_val fp) / 10 ^ length fp
            in if ip = [] \<and> fp = [] then NaN
               else Fin ((if neg then - m else m) * pow10 (exponent_part r2))))"

definition parseInt10_str :: "string \<Rightarrow> jsnum" where
  "parseInt10_str s =
     (let t = dropWhile is_ws s;
          neg = (t \<noteq> [] \<and> hd t = CHR ''-'');
          u = (if t \<noteq> [] \<and> (hd t = CHR ''-'' \<or> hd t = CHR ''+'') then tl t else t);
          ds = takeWhile is_digit u
      in if ds = [] then NaN
         else Fin (if neg then - of_nat (digits_val ds) else of_nat (digits_val ds)))"

fun parseFloat :: "jsval \<Rightarrow> jsnum" where
  "parseFloat (JStr s) = parseFloat_str s"
| "parseFloat (JNum r) = Fin r"
| "parseFloat v = NaN"

definition trunc_rat :: "rat \<Rightarrow> int" where
  "trunc_rat r = (if 0 \<le> r then \<lfloor>r\<rfloor> else - \<lfloor>- r\<rfloor>)"

definition lead_digit :: "rat \<Rightarrow> int option" where
  \<comment> \<open>the first significant digit of a positive number within the range of doubles\<close>
  "lead_digit a =
     (if 1 \<le> a
      then map_option (\<lambda>k. \<lfloor>a / 10 ^ k\<rfloor>) (find (\<lambda>k. a < 10 ^ Suc k) [0..<400])
      else map_option (\<lambda>k. \<lfloor>a * 10 ^ k\<rfloor>) (find (\<lambda>k. 1 \<le> a * 10 ^ k) [0..<400]))"

definition parseInt10_num :: "rat \<Rightarrow> jsnum" where
  "parseInt10_num r =
     (if r = 0 then Fin 0
      else if 1 / 10 ^ 6 \<le> \<bar>r\<bar> \<and> \<bar>r\<bar> < 10 ^ 21 then Fin (of_int (trunc_rat r))
      else (case lead_digit \<bar>r\<bar> of
              None \<Rightarrow> NaN
            | Some d \<Rightarrow> Fin (of_int (if r < 0 then - d else d))))"

fun parseInt10 :: "jsval \<Rightarrow> jsnum" where
  "parseInt10 (JStr s) = parseInt10_str s"
| "parseInt10 (JNum r) = parseInt10_num r"
| "parseInt10 v = NaN"

text \<open>
  \<open>new Date(v)\<close> parses a string and takes any other value as a number of milliseconds,
  cut to a whole number; the result is an invalid date (\<open>None\<close>) beyond 8.64e15 ms.
\<close>

definition timeClip :: "rat \<Rightarrow> int option" where
  "timeClip r = (if \<bar>r\<bar> \<le> 8640000000000000 then Some (trunc_rat r) else None)"

fun newDate :: "js_engine \<Rightarrow> jsval \<Rightarrow> int option" where
  "newDate E (JStr s) = dateParse E s"
| "newDate E (JNum r) = timeClip r"
| "newDate E (JBool b) = Some (if b then 1 else 0)"
| "newDate E JNull = Some 0"
| "newDate E JUndef = None"

section \<open>Rule-based filtering (\<open>filterCustomersByRule\<close>)\<close>

text \<open>
  \<^verbatim>\<open>
  function filterCustomersByRule(customers, issueType) {
    const currentDate = new Date();
    return customers.filter(customer => {
      try {
        switch (issueType) {
          case 'account_closure': {
            const bal = parseFloat(customer.BALANCE || customer.balance || 0) || 0;
            const lastTxRaw = customer.LAST_TRANSACTION || customer.last_transaction
                              || customer.lastTransaction || null;
            const lastTransaction = lastTxRaw ? new Date(lastTxRaw) : null;
            const daysSinceLastTransaction =
              lastTransaction && !isNaN(lastTransaction.getTime())
                ? Math.floor((currentDate - lastTransaction) / (1000 * 60 * 60 * 24))
                : 9999;
            return bal <= 100 || daysSinceLastTransaction > 90;
          }
          case 'kyc_update': {
            const email = customer.EMAIL || customer.email || '';
            const mobile = customer.MOBILE || customer.mobile || '';
            const kyc = customer.KYC_STATUS || customer.kyc_status || customer.kycStatus || '';
            return !email || !mobile || /expired|pending/i.test(String(kyc || ''));
          }
          ...
          case 'document_expiry': {
            const status = String(customer.DOC_STATUS || customer.doc_status
                                  || customer.docStatus || '').toLowerCase();
            const days = parseInt(customer.DOC_EXPIRY_DAYS || customer.doc_expiry_days
                                  || customer.docExpiryDays || 9999, 10) || 9999;
            return status === 'expiring' || status === 'expired' || days <= 60;
          }
          default:
            return false;
        }
      } catch (err) { return false; }
    });
  }
  \<close>
  The clock is read once per call and is the parameter \<open>currentDate\<close> (milliseconds).
  On a record whose values are strings, numbers, booleans or null nothing inside the
  \<open>try\<close> throws, so the \<open>catch\<close> branch has no counterpart.
\<close>

definition test_expired_pending :: "string \<Rightarrow> bool" where
  \<comment> \<open>\<open>/expired|pending/i.test(s)\<close>\<close>
  "test_expired_pending s =
     (str_includes (toLowerCase s) ''expired'' \<or> str_includes (toLowerCase s) ''pending'')"

definition account_closure_rule :: "js_engine \<Rightarrow> int \<Rightarrow> jsobj \<Rightarrow> bool" where
  "account_closure_rule E currentDate customer =
     (let bal = num_or (parseFloat (js_or (field customer ''BALANCE'')
                  (js_or (field customer ''balance'') (JNum 0)))) (Fin 0);
          lastTxRaw = js_or (field customer ''LAST_TRANSACTION'')
                  (js_or (field customer ''last_transaction'')
                  (js_or (field customer ''lastTransaction'') JNull));
          lastTransaction = (if truthy lastTxRaw then newDate E lastTxRaw else None);
          daysSinceLastTransaction =
            (case lastTransaction of
               Some t \<Rightarrow> (currentDate - t) div (1000 * 60 * 60 * 24)
             | None \<Rightarrow> 9999)
      in num_le bal 100 \<or> 90 < daysSinceLastTransaction)"

definition kyc_update_rule :: "js_engine \<Rightarrow> jsobj \<Rightarrow> bool" where
  "kyc_update_rule E customer =
     (let email = js_or (field customer ''EMAIL'') (js_or (field customer ''email'') (JStr []));
          mobile = js_or (field customer ''MOBILE'') (js_or (field customer ''mobile'') (JStr []));
          kyc = js_or (field customer ''KYC_STATUS'')
                  (js_or (field customer ''kyc_status'')
                  (js_or (field customer ''kycStatus'') (JStr [])))
      in \<not> truthy email \<or> \<not> truthy mobile
         \<or> test_expired_pending (js_String E (js_or kyc (JStr []))))"

definition loan_default_rule :: "jsobj \<Rightarrow> bool" where
  "loan_default_rule customer =
     (let outstanding = num_or (parseFloat (js_or (field customer ''OUTSTANDING_AMOUNT'')
                  (js_or (field customer ''outstanding_amount'')
                  (js_or (field customer ''outstanding'') (JNum 0))))) (Fin 0)
      in num_gt outstanding 0)"

definition fee_waiver_rule :: "js_engine \<Rightarrow> jsobj \<Rightarrow> bool" where
  "fee_waiver_rule E customer =
     (let age = num_or (parseInt10 (js_or (field customer ''AGE'')
                  (js_or (field customer ''age'') (JNum 0)))) (Fin 0);
          accType = toLowerCase (js_String E (js_or (field customer ''ACCOUNT_TYPE'')
                  (js_or (field customer ''account_type'') (JStr []))));
          custCat = toLowerCase (js_String E (js_or (field customer ''CUSTOMER_CATEGORY'')
                  (js_or (field customer ''customer_category'') (JStr []))))
      in num_gt age 60 \<or> accType = ''student'' \<or> str_includes custCat ''senior'')"

definition document_expiry_rule :: "js_engine \<Rightarrow> jsobj \<Rightarrow> bool" where
  "document_expiry_rule E customer =
     (let status = toLowerCase (js_String E (js_or (field customer ''DOC_STATUS'')
                  (js_or (field customer ''doc_status'')
                  (js_or (field customer ''docStatus'') (JStr [])))));
          days = num_or (parseInt10 (js_or (field customer ''DOC_EXPIRY_DAYS'')
                  (js_or (field customer ''doc_expiry_days'')
                  (js_or (field customer ''docExpiryDays'') (JNum 9999))))) (Fin 9999)
      in status = ''expiring'' \<or> status = ''expired'' \<or> num_le days 60)"

definition rule_matches :: "js_engine \<Rightarrow> int \<Rightarrow> string \<Rightarrow> jsobj \<Rightarrow> bool" where
  "rule_matches E currentDate issueType customer =
     (if issueType = ''account_closure'' then account_closure_rule E currentDate customer
      else if issueType = ''kyc_update'' then kyc_update_rule E customer
      else if issueType = ''loan_default'' then loan_default_rule customer
      else if issueType = ''fee_waiver'' then fee_waiver_rule E customer
      else if issueType = ''document_expiry'' then document_expiry_rule E customer
      else False)"

definition filterCustomersByRule ::
  "js_engine \<Rightarrow> int \<Rightarrow> jsobj list \<Rightarrow> string \<Rightarrow> jsobj list" where
  "filterCustomersByRule E currentDate customers issueType =
     filter (rule_matches E currentDate issueType) customers"

section \<open>Account keys\<close>

text \<open>
  \<^verbatim>\<open>
  function normalizeAccountKey(obj) {
    if (!obj) return obj;
    const ret = { ...obj };
    const keys = Object.keys(obj);
    const accountKey = keys.find(k => /account[_\s-]*no$|^accountno$|^account$/i.test(k));
    if (accountKey && accountKey !== 'ACCOUNT_NO') {
      ret.ACCOUNT_NO = obj[accountKey];
    } else if (!ret.ACCOUNT_NO) {
      const alt = keys.find(k => /acc(?:ount)?[_\s-]*no|accno|accountnumber/i.test(k));
      if (alt) ret.ACCOUNT_NO = obj[alt];
    }
    return ret;
  }
  \<close>
  (the character class of the two patterns is underscore, white space and hyphen). Each
  pattern is a test on the lower-cased key: the separators are matched greedily and are
  followed by a letter, so skipping all of them decides the match.
\<close>

definition is_sep :: "char \<Rightarrow> bool" where
  "is_sep c = (c = CHR ''_'' \<or> is_ws c \<or> c = CHR ''-'')"

definition test_account_key :: "string \<Rightarrow> bool" where
  "test_account_key k =
     (let s = toLowerCase k
      in exists_suffix (\<lambda>t. starts_with ''account'' t \<and> dropWhile is_sep (drop 7 t) = ''no'') s
         \<or> s = ''accountno'' \<or> s = ''account'')"

definition test_alt_account_key :: "string \<Rightarrow> bool" where
  "test_alt_account_key k =
     exists_suffix
       (\<lambda>t. (starts_with ''acc'' t
              \<and> ((starts_with ''ount'' (drop 3 t) \<and> starts_with ''no'' (dropWhile is_sep (drop 7 t)))
                  \<or> starts_with ''no'' (dropWhile is_sep (drop 3 t))))
            \<or> starts_with ''accno'' t
            \<or> starts_with ''accountnumber'' t)
       (toLowerCase k)"

definition normalizeAccountKey :: "jsobj \<Rightarrow> jsobj" where
  "normalizeAccountKey obj =
     (let ret = obj;
          keys = map fst obj;
          accountKey = find test_account_key keys
      in case accountKey of
           Some k \<Rightarrow>
             if k \<noteq> ''ACCOUNT_NO'' then obj_set ret ''ACCOUNT_NO'' (field obj k)
             else if \<not> truthy (field ret ''ACCOUNT_NO'')
             then (case find test_alt_account_key keys of
                     Some alt \<Rightarrow> obj_set ret ''ACCOUNT_NO'' (field obj alt)
                   | None \<Rightarrow> ret)
             else ret
         | None \<Rightarrow>
             if \<not> truthy (field ret ''ACCOUNT_NO'')
             then (case find test_alt_account_key keys of
                     Some alt \<Rightarrow> obj_set ret ''ACCOUNT_NO'' (field obj alt)
                   | None \<Rightarrow> ret)
             else ret)"

definition getAccountValue :: "jsobj \<Rightarrow> jsval" where
  "getAccountValue obj =
     (let normalized = normalizeAccountKey obj
      in js_or (field normalized ''ACCOUNT_NO'')
           (js_or (field normalized ''account_no'')
           (js_or (field normalized ''accountNo'')
           (js_or (field normalized ''Account'') (JStr [])))))"

section \<open>The analysis handler (\<open>POST /analyze\<close>)\<close>

text \<open>
  The scoring service is a collaborator: \<open>await aiService.analyzeCustomers(toAnalyze,
  issueType)\<close> either throws an \<open>Error\<close> with a message or returns the object that
  \<open>JSON.parse\<close> read from the model's answer. Of that object the handler reads
  \<open>analysis\<close> (used only when it is an array) and \<open>summary\<close>. An entry of the array is
  \<open>null\<close>, an object, or some other value whose properties all read as \<open>undefined\<close>.
  The fields of an entry hold strings, numbers, booleans or null, as those of a customer
  record do; an entry whose account number is itself an object or an array is not
  modelled.
\<close>

datatype ai_item = ItemNull | ItemObj jsobj | ItemOther

record ai_response =
  analysis :: "ai_item list option"
  summary :: "jsobj option"

datatype ai_outcome = AiThrows string | AiReturns ai_response

definition err_text :: "string \<Rightarrow> string" where
  \<comment> \<open>\<open>e && e.message ? e.message : String(e)\<close> for an \<open>Error\<close> with the given message\<close>
  "err_text message = (if message \<noteq> [] then message else ''Error'')"

definition null_entry_message :: string where
  \<comment> \<open>the \<open>TypeError\<close> of reading \<open>a.account_no\<close> on \<open>null\<close>\<close>
  "null_entry_message = ''Cannot read properties of null (reading 'account_no')''"

text \<open>
  \<^verbatim>\<open>
  const aiMap = new Map();
  aiAnalysis.analysis.forEach(a => {
    const acct = (a.account_no || a.ACCOUNT_NO || a.accountNo || '').toString().toLowerCase();
    if (acct) aiMap.set(acct, a);
  });
  \<close>
\<close>

fun build_aiMap ::
  "js_engine \<Rightarrow> ai_item list \<Rightarrow> (string \<rightharpoonup> jsobj) \<Rightarrow> string + (string \<rightharpoonup> jsobj)" where
  "build_aiMap E [] aiMap = Inr aiMap"
| "build_aiMap E (ItemNull # rest) aiMap = Inl null_entry_message"
| "build_aiMap E (ItemOther # rest) aiMap = build_aiMap E rest aiMap"
| "build_aiMap E (ItemObj a # rest) aiMap =
     (let acct = toLowerCase (js_String E (js_or (field a ''account_no'')
                   (js_or (field a ''ACCOUNT_NO'')
                   (js_or (field a ''accountNo'') (JStr [])))))
      in build_aiMap E rest (if acct \<noteq> [] then aiMap(acct \<mapsto> a) else aiMap))"

text \<open>
  \<^verbatim>\<open>
  analysisResult.customers = ruleFiltered.map(customer => {
    const acctVal = (getAccountValue(customer) || '').toString().toLowerCase();
    const aiMatch = aiMap.get(acctVal);
    return {
      ...customer,
      aiConfidence: aiMatch ? aiMatch.confidence : (customer.aiConfidence || 0.8),
      aiPriority: aiMatch ? aiMatch.priority : (customer.aiPriority || 'medium'),
      aiReason: aiMatch ? aiMatch.reason : (customer.aiReason || 'Rule-based match')
    };
  });
  \<close>
\<close>

definition merge_customer :: "js_engine \<Rightarrow> (string \<rightharpoonup> jsobj) \<Rightarrow> jsobj \<Rightarrow> jsobj" where
  "merge_customer E aiMap customer =
     (let acctVal = toLowerCase (js_String E (js_or (getAccountValue customer) (JStr [])));
          aiMatch = aiMap acctVal;
          aiConfidence = (case aiMatch of
                            Some a \<Rightarrow> field a ''confidence''
                          | None \<Rightarrow> js_or (field customer ''aiConfidence'') (JNum (8 / 10)));
          aiPriority = (case aiMatch of
                          Some a \<Rightarrow> field a ''priority''
                        | None \<Rightarrow> js_or (field customer ''aiPriority'') (JStr ''medium''));
          aiReason = (case aiMatch of
                        Some a \<Rightarrow> field a ''reason''
                      | None \<Rightarrow> js_or (field customer ''aiReason'') (JStr ''Rule-based match''))
      in obj_set (obj_set (obj_set customer ''aiConfidence'' aiConfidence)
           ''aiPriority'' aiPriority) ''aiReason'' aiReason)"

definition count_where :: "('a \<Rightarrow> bool) \<Rightarrow> 'a list \<Rightarrow> nat" where
  \<comment> \<open>\<open>xs.filter(p).length\<close>\<close>
  "count_where P xs = length (filter P xs)"

definition generateInsights :: "js_engine \<Rightarrow> string \<Rightarrow> jsobj list \<Rightarrow> (string \<times> jsnum) list" where
  "generateInsights E issueType cs =
     (if issueType = ''account_closure'' then
        [(''zeroBalance'', Fin (of_nat (count_where
            (\<lambda>c. parseFloat (js_or (field c ''BALANCE'') (js_or (field c ''balance'') (JNum 0)))
                 = Fin 0) cs))),
         (''lowBalance'', Fin (of_nat (count_where
            (\<lambda>c. let bal = num_or (parseFloat (js_or (field c ''BALANCE'')
                               (js_or (field c ''balance'') (JNum 0)))) (Fin 0)
                 in num_gt bal 0 \<and> num_le bal 100) cs)))]
      else if issueType = ''kyc_update'' then
        [(''missingEmail'', Fin (of_nat (count_where
            (\<lambda>c. \<not> truthy (js_or (field c ''EMAIL'') (field c ''email''))) cs))),
         (''missingMobile'', Fin (of_nat (count_where
            (\<lambda>c. \<not> truthy (js_or (field c ''MOBILE'') (field c ''mobile''))) cs))),
         (''expiredKyc'', Fin (of_nat (count_where
            (\<lambda>c. str_includes (toLowerCase (js_String E (js_or (field c ''KYC_STATUS'')
                    (js_or (field c ''kyc_status'') (JStr []))))) ''expired'') cs)))]
      else if issueType = ''loan_default'' then
        (let totalOutstanding =
               foldl (\<lambda>sum c. num_add sum
                  (num_or (parseFloat (js_or (field c ''OUTSTANDING_AMOUNT'')
                     (js_or (field c ''outstanding_amount'')
                     (js_or (field c ''outstanding'') (JNum 0))))) (Fin 0)))
                 (Fin 0) cs
         in [(''totalOutstanding'', totalOutstanding),
             (''averageOutstanding'',
                if 0 < length cs then num_div_count totalOutstanding (length cs) else Fin 0)])
      else [])"

definition getRecommendations :: "js_engine \<Rightarrow> string \<Rightarrow> nat \<Rightarrow> string list" where
  "getRecommendations E issueType affectedCount =
     (if affectedCount = 0 then [''No immediate action required for this issue type.'']
      else if issueType = ''account_closure'' then
        [''Send account closure warnings to '' @ numToString E (of_nat affectedCount) @ '' customers'',
         ''Follow up with phone calls for high-value accounts'',
         ''Offer account reactivation incentives'']
      else if issueType = ''kyc_update'' then
        [''Initiate KYC update process for '' @ numToString E (of_nat affectedCount) @ '' customers'',
         ''Set up digital KYC collection drive'',
         ''Send reminders with document requirements'']
      else if issueType = ''loan_default'' then
        [''Contact '' @ numToString E (of_nat affectedCount) @ '' customers for payment collection'',
         ''Offer payment restructuring options'',
         ''Schedule follow-up calls within 7 days'']
      else [''Perform manual review for affected customers''])"

record analysis_result =
  totalCustomers :: nat
  ruleBasedMatches :: nat
  finalMatches :: nat
  customers :: "jsobj list"
  confidence :: string
  aiEnhanced :: bool
  aiInsights :: "jsobj option"
  aiError :: "string option"
  insights :: "(string \<times> jsnum) list"

record analyze_response =
  success :: bool
  resp_issueType :: string
  analysisResult :: analysis_result
  recommendations :: "string list"

record http_error =
  status :: nat
  error :: string
  error_field :: string

text \<open>
  The block of the handler that calls the scoring service, with its \<open>try\<close>/\<open>catch\<close>:
  \<^verbatim>\<open>
  try {
    const toAnalyze = ruleFiltered.slice(0, 100);
    const aiAnalysis = await aiService.analyzeCustomers(toAnalyze, issueType);
    if (aiAnalysis && Array.isArray(aiAnalysis.analysis)) {
      analysisResult.aiEnhanced = true;
      analysisResult.aiInsights = aiAnalysis.summary || {};
      ... aiMap, analysisResult.customers as above ...
      analysisResult.finalMatches = analysisResult.customers.filter(
        c => c.aiConfidence >= (options.minConfidence || 0.7)).length;
      analysisResult.confidence = 'ai-enhanced';
    }
  } catch (aiError) {
    analysisResult.aiError = aiError && aiError.message ? aiError.message : String(aiError);
  }
  \<close>
\<close>

definition ai_enhance ::
  "js_engine \<Rightarrow> (jsobj list \<Rightarrow> string \<Rightarrow> ai_outcome) \<Rightarrow> string \<Rightarrow> jsobj \<Rightarrow>
     jsobj list \<Rightarrow> analysis_result \<Rightarrow> analysis_result" where
  "ai_enhance E analyzeCustomers issueType options ruleFiltered analysisResult0 =
     (let toAnalyze = take 100 ruleFiltered
      in case analyzeCustomers toAnalyze issueType of
           AiThrows message \<Rightarrow> analysisResult0 \<lparr> aiError := Some (err_text message) \<rparr>
         | AiReturns aiAnalysis \<Rightarrow>
             (case analysis aiAnalysis of
                None \<Rightarrow> analysisResult0
              | Some entries \<Rightarrow>
                  (let r1 = analysisResult0
                         \<lparr> aiEnhanced := True,
                           aiInsights := Some (case summary aiAnalysis of None \<Rightarrow> [] | Some sm \<Rightarrow> sm) \<rparr>
                   in case build_aiMap E entries Map.empty of
                        Inl message \<Rightarrow> r1 \<lparr> aiError := Some (err_text message) \<rparr>
                      | Inr aiMap \<Rightarrow>
                          (let merged = map (merge_customer E aiMap) ruleFiltered;
                               threshold = js_or (field options ''minConfidence'') (JNum (7 / 10))
                           in r1 \<lparr> customers := merged,
                                   finalMatches :=
                                     length (filter (\<lambda>c. js_ge E (field c ''aiConfidence'') threshold) merged),
                                   confidence := ''ai-enhanced'' \<rparr>))))"

text \<open>
  The handler. \<open>apiKey\<close> says whether \<open>process.env.GEMINI_API_KEY\<close> is set. Its outer
  \<open>try\<close>/\<open>catch\<close> (status 500) has no counterpart: nothing outside the inner \<open>try\<close>
  throws on a list of records.
\<close>

definition analyze ::
  "js_engine \<Rightarrow> bool \<Rightarrow> int \<Rightarrow> (jsobj list \<Rightarrow> string \<Rightarrow> ai_outcome) \<Rightarrow>
     jsobj list \<Rightarrow> string \<Rightarrow> jsobj \<Rightarrow> http_error + analyze_response" where
  "analyze E apiKey currentDate analyzeCustomers cs issueType options =
     (let normalized = map normalizeAccountKey cs;
          ruleFiltered = filterCustomersByRule E currentDate normalized issueType;
          analysisResult0 =
            \<lparr> totalCustomers = length normalized,
              ruleBasedMatches = length ruleFiltered,
              finalMatches = length ruleFiltered,
              customers = ruleFiltered,
              confidence = ''rule-based'',
              aiEnhanced = False,
              aiInsights = None,
              aiError = None,
              insights = [] \<rparr>;
          useAI = (truthy (field options ''useAI'') \<and> apiKey);
          analysisResult1 =
            (if useAI \<and> 0 < length ruleFiltered
             then ai_enhance E analyzeCustomers issueType options ruleFiltered analysisResult0
             else analysisResult0);
          analysisResult2 = analysisResult1
            \<lparr> insights := generateInsights E issueType (customers analysisResult1) \<rparr>
      in Inr \<lparr> success = True,
               resp_issueType = issueType,
               analysisResult = analysisResult2,
               recommendations = getRecommendations E issueType (finalMatches analysisResult2) \<rparr>)"

section \<open>Request validation (\<open>validateAnalysisRequest\<close>) and the route\<close>

text \<open>
  \<^verbatim>\<open>
  const schema = Joi.object({
    customers: Joi.array().items(Joi.object()).min(1).max(10000).required(),
    issueType: Joi.string().valid('account_closure', 'kyc_update', 'loan_default',
                                  'fee_waiver', 'document_expiry').required(),
    options: Joi.object({
      useAI: Joi.boolean().default(false),
      aiProvider: Joi.string().valid('gemini', 'openai').default('gemini'),
      confidenceThreshold: Joi.number().min(0).max(1).default(0.7),
      maxResults: Joi.number().min(1).max(1000).default(100)
    }).default({})
  });
  const { error, value } = schema.validate(req.body);
  if (error) return res.status(400).json({ error: 'Validation failed', ... });
  req.body = value;
  next();
  \<close>
  The request carries its known options with values of the schema's types, and the names
  of any other keys of \<open>options\<close>, which the schema does not allow. The route is
  \<open>router.post('/analyze', validateAnalysisRequest, handler)\<close>.
\<close>

definition issue_types :: "string list" where
  "issue_types =
     [''account_closure'', ''kyc_update'', ''loan_default'', ''fee_waiver'', ''document_expiry'']"

record request_options =
  opt_useAI :: "bool option"
  opt_aiProvider :: "string option"
  opt_confidenceThreshold :: "rat option"
  opt_maxResults :: "rat option"
  opt_unknown_keys :: "string list"

record analyze_request =
  req_customers :: "jsobj list"
  req_issueType :: jsval
  req_options :: "request_options option"

record analyze_body =
  body_customers :: "jsobj list"
  body_issueType :: string
  body_options :: jsobj

definition in_range :: "rat \<Rightarrow> rat \<Rightarrow> rat option \<Rightarrow> bool" where
  "in_range lo hi v = (case v of None \<Rightarrow> True | Some r \<Rightarrow> lo \<le> r \<and> r \<le> hi)"

definition options_ok :: "request_options \<Rightarrow> bool" where
  "options_ok opts =
     (opt_unknown_keys opts = []
      \<and> (case opt_aiProvider opts of None \<Rightarrow> True | Some p \<Rightarrow> p = ''gemini'' \<or> p = ''openai'')
      \<and> in_range 0 1 (opt_confidenceThreshold opts)
      \<and> in_range 1 1000 (opt_maxResults opts))"

definition options_value :: "request_options \<Rightarrow> jsobj" where
  "options_value opts =
     [(''useAI'', JBool (case opt_useAI opts of None \<Rightarrow> False | Some b \<Rightarrow> b)),
      (''aiProvider'', JStr (case opt_aiProvider opts of None \<Rightarrow> ''gemini'' | Some p \<Rightarrow> p)),
      (''confidenceThreshold'', JNum (case opt_confidenceThreshold opts of None \<Rightarrow> 7 / 10 | Some r \<Rightarrow> r)),
      (''maxResults'', JNum (case opt_maxResults opts of None \<Rightarrow> 100 | Some r \<Rightarrow> r))]"

definition validateAnalysisRequest :: "analyze_request \<Rightarrow> string + analyze_body" where
  \<comment> \<open>\<open>Inl\<close>: the path of the first failing key; \<open>Inr\<close>: the validated body\<close>
  "validateAnalysisRequest req =
     (if length (req_customers req) < 1 \<or> 10000 < length (req_customers req) then Inl ''customers''
      else case req_issueType req of
             JStr s \<Rightarrow>
               if s \<in> set issue_types then
                 (case req_options req of
                    None \<Rightarrow> Inr \<lparr> body_customers = req_customers req, body_issueType = s,
                                  body_options = [] \<rparr>
                  | Some opts \<Rightarrow>
                      if options_ok opts
                      then Inr \<lparr> body_customers = req_customers req, body_issueType = s,
                                 body_options = options_value opts \<rparr>
                      else Inl ''options'')
               else Inl ''issueType''
           | _ \<Rightarrow> Inl ''issueType'')"

definition analyze_route ::
  "js_engine \<Rightarrow> bool \<Rightarrow> int \<Rightarrow> (jsobj list \<Rightarrow> string \<Rightarrow> ai_outcome) \<Rightarrow>
     analyze_request \<Rightarrow> http_error + analyze_response" where
  "analyze_route E apiKey currentDate analyzeCustomers req =
     (case validateAnalysisRequest req of
        Inl path \<Rightarrow> Inl \<lparr> status = 400, error = ''Validation failed'', error_field = path \<rparr>
      | Inr body \<Rightarrow>
          analyze E apiKey currentDate analyzeCustomers
            (body_customers body) (body_issueType body) (body_options body))"

section \<open>E-mail dispatch (\<open>POST /api/email/send\<close>)\<close>

text \<open>
  \<^verbatim>\<open>
  for (let i = 0; i < customers.length; i++) {
    const customer = customers[i];
    if (!customer.EMAIL) {
      results.push({ customer: customer.ACCOUNT_NO || customer.NAME, email: 'N/A',
                     status: 'skipped', reason: 'No email address provided' });
      continue;
    }
    try {
      if (i > 0) await new Promise(resolve => setTimeout(resolve, delayBetweenEmails));
      await emailService.sendLetter(customer, subject, content, issueType, options);
      results.push({ customer: customer.ACCOUNT_NO || customer.NAME, email: customer.EMAIL,
                     status: 'sent', sentAt: new Date().toISOString() });
    } catch (emailError) {
      results.push({ customer: customer.ACCOUNT_NO || customer.NAME, email: customer.EMAIL,
                     status: 'failed', error: emailError.message,
                     errorCode: emailError.code || 'UNKNOWN' });
    }
  }
  const stats = {
    total: customers.length,
    sent: results.filter(r => r.status === 'sent').length,
    failed: results.filter(r => r.status === 'failed').length,
    skipped: results.filter(r => r.status === 'skipped').length,
    processingTimeMs: Date.now() - startTime
  };
  \<close>
  The mailer is a collaborator: the call made for the customer at position \<open>i\<close> either
  returns or throws an error with a message and possibly a code
  (\<open>emailService.sendLetter\<close> throws \<open>Error\<close> objects only). Subject, content and options
  are passed through to it and play no part in the loop.
\<close>

datatype mailer_outcome = Delivered | Fails string "string option"

record email_result =
  er_customer :: jsval
  er_email :: jsval
  er_status :: string
  er_reason :: "string option"
  er_error :: "string option"
  er_errorCode :: "string option"

record email_statistics =
  total :: nat
  sent :: nat
  failed :: nat
  skipped :: nat

record email_response =
  statistics :: email_statistics
  results :: "email_result list"
  successRate :: int

definition customer_ref :: "jsobj \<Rightarrow> jsval" where
  \<comment> \<open>\<open>customer.ACCOUNT_NO || customer.NAME\<close>\<close>
  "customer_ref customer = js_or (field customer ''ACCOUNT_NO'') (field customer ''NAME'')"

definition email_result_for :: "(nat \<Rightarrow> jsobj \<Rightarrow> mailer_outcome) \<Rightarrow> nat \<Rightarrow> jsobj \<Rightarrow> email_result" where
  "email_result_for sendLetter i customer =
     (if \<not> truthy (field customer ''EMAIL'') then
        \<lparr> er_customer = customer_ref customer, er_email = JStr ''N/A'', er_status = ''skipped'',
          er_reason = Some ''No email address provided'', er_error = None, er_errorCode = None \<rparr>
      else
        (case sendLetter i customer of
           Delivered \<Rightarrow>
             \<lparr> er_customer = customer_ref customer, er_email = field customer ''EMAIL'',
               er_status = ''sent'', er_reason = None, er_error = None, er_errorCode = None \<rparr>
         | Fails message code \<Rightarrow>
             \<lparr> er_customer = customer_ref customer, er_email = field customer ''EMAIL'',
               er_status = ''failed'', er_reason = None, er_error = Some message,
               er_errorCode = Some (case code of
                                      None \<Rightarrow> ''UNKNOWN''
                                    | Some c \<Rightarrow> if c \<noteq> [] then c else ''UNKNOWN'') \<rparr>))"

fun send_loop ::
  "(nat \<Rightarrow> jsobj \<Rightarrow> mailer_outcome) \<Rightarrow> nat \<Rightarrow> jsobj list \<Rightarrow> email_result list \<Rightarrow> email_result list" where
  "send_loop sendLetter i [] rs = rs"
| "send_loop sendLetter i (customer # rest) rs =
     send_loop sendLetter (i + 1) rest (rs @ [email_result_for sendLetter i customer])"

definition math_round :: "rat \<Rightarrow> int" where
  "math_round x = \<lfloor>x + 1 / 2\<rfloor>"

definition send_emails :: "(nat \<Rightarrow> jsobj \<Rightarrow> mailer_outcome) \<Rightarrow> jsobj list \<Rightarrow> email_response" where
  "send_emails sendLetter cs =
     (let rs = send_loop sendLetter 0 cs [];
          stats = \<lparr> total = length cs,
                    sent = length (filter (\<lambda>r. er_status r = ''sent'') rs),
                    failed = length (filter (\<lambda>r. er_status r = ''failed'') rs),
                    skipped = length (filter (\<lambda>r. er_status r = ''skipped'') rs) \<rparr>
      in \<lparr> statistics = stats,
           results = rs,
           successRate = (if 0 < total stats
                          then math_round (of_nat (sent stats) / of_nat (total stats) * 100)
                          else 0) \<rparr>)"

section \<open>Letter generation (\<open>POST /api/letters/generate\<close>)\<close>

text \<open>
  \<^verbatim>\<open>
  for (let i = 0; i < customers.length; i++) {
    const customer = customers[i];
    try {
      const letterData = generateLetterContent(customer, issueType, customMessage);
      let letterResult = {
        customerId: customer.ACCOUNT_NO || i, customerName: customer.NAME,
        subject: letterData.subject, content: letterData.content,
        urgency: letterData.urgency || 'medium', generatedAt: new Date().toISOString()
      };
      if (options.generatePDF) {
        try {
          const pdfBuffer = await pdfService.generateLetterPDF(letterData.content, customer);
          letterResult.pdfBase64 = pdfBuffer.toString('base64');
          letterResult.pdfSize = pdfBuffer.length;
        } catch (pdfError) {
          letterResult.pdfError = pdfError.message;
        }
      }
      letters.push(letterResult);
    } catch (letterError) {
      errors.push({ customer: customer.ACCOUNT_NO || customer.NAME, error: letterError.message });
    }
  }
  \<close>
  The template renderer and the PDF renderer are collaborators that return a value or
  throw an error with a message. Of the PDF buffer the handler reads its base64 text and
  its length.
\<close>

record letter_data =
  ld_subject :: string
  ld_content :: string
  ld_urgency :: string

record pdf_buffer =
  base64 :: string
  byte_length :: nat

record letter_result =
  customerId :: jsval
  customerName :: jsval
  subject :: string
  content :: string
  urgency :: string
  pdfBase64 :: "string option"
  pdfSize :: "nat option"
  pdfError :: "string option"

record letter_error =
  le_customer :: jsval
  le_error :: string

record letter_statistics =
  totalRequested :: nat
  successful :: nat
  failed_letters :: nat

record letters_response =
  letter_count :: nat
  letters :: "letter_result list"
  errors :: "letter_error list option"
  letter_stats :: letter_statistics

definition letter_for ::
  "(string \<Rightarrow> jsobj \<Rightarrow> string + pdf_buffer) \<Rightarrow> bool \<Rightarrow> nat \<Rightarrow> jsobj \<Rightarrow> letter_data \<Rightarrow> letter_result" where
  "letter_for generateLetterPDF generatePDF i customer letterData =
     (let letterResult =
            \<lparr> customerId = js_or (field customer ''ACCOUNT_NO'') (JNum (of_nat i)),
              customerName = field customer ''NAME'',
              subject = ld_subject letterData,
              content = ld_content letterData,
              urgency = (if ld_urgency letterData \<noteq> [] then ld_urgency letterData else ''medium''),
              pdfBase64 = None, pdfSize = None, pdfError = None \<rparr>
      in if generatePDF then
           (case generateLetterPDF (ld_content letterData) customer of
              Inr pdfBuffer \<Rightarrow>
                letterResult \<lparr> pdfBase64 := Some (base64 pdfBuffer),
                               pdfSize := Some (byte_length pdfBuffer) \<rparr>
            | Inl message \<Rightarrow> letterResult \<lparr> pdfError := Some message \<rparr>)
         else letterResult)"

fun generate_loop ::
  "(jsobj \<Rightarrow> string \<Rightarrow> string \<Rightarrow> string + letter_data) \<Rightarrow>
   (string \<Rightarrow> jsobj \<Rightarrow> string + pdf_buffer) \<Rightarrow> string \<Rightarrow> string \<Rightarrow> bool \<Rightarrow>
   nat \<Rightarrow> jsobj list \<Rightarrow> letter_result list \<times> letter_error list \<Rightarrow>
   letter_result list \<times> letter_error list" where
  "generate_loop generateLetterContent generateLetterPDF issueType customMessage generatePDF
     i [] acc = acc"
| "generate_loop generateLetterContent generateLetterPDF issueType customMessage generatePDF
     i (customer # rest) acc =
     generate_loop generateLetterContent generateLetterPDF issueType customMessage generatePDF
       (i + 1) rest
       (case generateLetterContent customer issueType customMessage of
          Inr letterData \<Rightarrow>
            (fst acc @ [letter_for generateLetterPDF generatePDF i customer letterData], snd acc)
        | Inl message \<Rightarrow>
            (fst acc, snd acc @ [\<lparr> le_customer = customer_ref customer, le_error = message \<rparr>]))"

definition generate_letters ::
  "(jsobj \<Rightarrow> string \<Rightarrow> string \<Rightarrow> string + letter_data) \<Rightarrow>
   (string \<Rightarrow> jsobj \<Rightarrow> string + pdf_buffer) \<Rightarrow> jsobj list \<Rightarrow> string \<Rightarrow> string \<Rightarrow> bool \<Rightarrow>
   letters_response" where
  "generate_letters generateLetterContent generateLetterPDF cs issueType customMessage generatePDF =
     (let out = generate_loop generateLetterContent generateLetterPDF issueType customMessage
                  generatePDF 0 cs ([], [])
      in \<lparr> letter_count = length (fst out),
           letters = fst out,
           errors = (if 0 < length (snd out) then Some (snd out) else None),
           letter_stats = \<lparr> totalRequested = length cs, successful = length (fst out),
                            failed_letters = length (snd out) \<rparr> \<rparr>)"

chapter \<open>The properties\<close>

section \<open>Reference definitions and sample data\<close>

text \<open>
  The definitions of this section do not come from the source. They write down what the
  specification says, to be compared with the functions above, and fix the concrete
  inputs of the examples.
\<close>

subsection \<open>What the specification says\<close>

text \<open>
  A customer record of the specification is keyed by upper-snake-case names
  (\<open>ACCOUNT_NO\<close>, \<open>BALANCE\<close>, \<open>LAST_TRANSACTION\<close>). A field is blank when it is absent or
  holds an empty value: \<open>null\<close>, the empty string, \<open>0\<close> or \<open>false\<close>.
\<close>

definition canonical_key :: "string \<Rightarrow> bool" where
  "canonical_key k = list_all (\<lambda>c. is_upper c \<or> is_digit c \<or> c = CHR ''_'') k"

definition canonical :: "jsobj \<Rightarrow> bool" where
  "canonical obj = list_all (\<lambda>kv. canonical_key (fst kv)) obj"

fun blank :: "jsval \<Rightarrow> bool" where
  "blank JUndef = True"
| "blank JNull = True"
| "blank (JBool b) = (b = False)"
| "blank (JNum r) = (r = 0)"
| "blank (JStr s) = (s = [])"

definition spec_balance :: "jsobj \<Rightarrow> jsnum" where
  \<comment> \<open>the parsed \<open>BALANCE\<close>, 0 when it is missing or does not parse\<close>
  "spec_balance customer =
     (case parseFloat (field customer ''BALANCE'') of NaN \<Rightarrow> Fin 0 | n \<Rightarrow> n)"

definition spec_days_since :: "js_engine \<Rightarrow> int \<Rightarrow> jsobj \<Rightarrow> int" where
  \<comment> \<open>whole days from the parsed \<open>LAST_TRANSACTION\<close> to now, 9999 when it is missing or
      does not parse\<close>
  "spec_days_since E now customer =
     (let v = field customer ''LAST_TRANSACTION''
      in if blank v then 9999
         else (case newDate E v of
                 None \<Rightarrow> 9999
               | Some t \<Rightarrow> (now - t) div 86400000))"

text \<open>
  The same two quantities when a field may also be written under its other names: the
  value read is the first one that is not blank.
\<close>

fun first_present :: "jsval list \<Rightarrow> jsval" where
  "first_present [] = JUndef"
| "first_present (v # vs) = (if blank v then first_present vs else v)"

definition balance_of :: "jsobj \<Rightarrow> jsnum" where
  \<comment> \<open>the parsed balance, read from \<open>BALANCE\<close> or else \<open>balance\<close>, 0 when it is missing or
      does not parse\<close>
  "balance_of customer =
     (case parseFloat (first_present [field customer ''BALANCE'', field customer ''balance'']) of
        NaN \<Rightarrow> Fin 0 | n \<Rightarrow> n)"

definition days_since_of :: "js_engine \<Rightarrow> int \<Rightarrow> jsobj \<Rightarrow> int" where
  \<comment> \<open>whole days from the parsed last transaction, read from \<open>LAST_TRANSACTION\<close> or else
      \<open>last_transaction\<close> or else \<open>lastTransaction\<close>, to now; 9999 when it is missing or
      does not parse\<close>
  "days_since_of E now customer =
     (let v = first_present [field customer ''LAST_TRANSACTION'',
                field customer ''last_transaction'', field customer ''lastTransaction'']
      in if blank v then 9999
         else (case newDate E v of
                 None \<Rightarrow> 9999
               | Some t \<Rightarrow> (now - t) div 86400000))"

definition claimed_kyc_update :: "js_engine \<Rightarrow> jsobj \<Rightarrow> bool" where
  \<comment> \<open>the \<open>kyc_update\<close> rule in the words of the specification\<close>
  "claimed_kyc_update E customer =
     (blank (field customer ''EMAIL'') \<or> blank (field customer ''MOBILE'')
      \<or> test_expired_pending (js_String E (field customer ''KYC_STATUS''))
      \<or> blank (field customer ''KYC_STATUS''))"

definition claimed_document_expiry :: "js_engine \<Rightarrow> jsobj \<Rightarrow> bool" where
  \<comment> \<open>the \<open>document_expiry\<close> rule in the words of the specification\<close>
  "claimed_document_expiry E customer =
     (let status = toLowerCase (js_String E (field customer ''DOC_STATUS''));
          days = (case parseInt10 (field customer ''DAYS_TO_EXPIRY'') of NaN \<Rightarrow> Fin 9999 | n \<Rightarrow> n)
      in status = ''expiring'' \<or> status = ''expired'' \<or> num_le days 60)"

definition rule_based_matches :: "js_engine \<Rightarrow> int \<Rightarrow> jsobj list \<Rightarrow> string \<Rightarrow> jsobj list" where
  "rule_based_matches E currentDate cs issueType =
     filterCustomersByRule E currentDate (map normalizeAccountKey cs) issueType"

definition rule_based_result :: "js_engine \<Rightarrow> int \<Rightarrow> jsobj list \<Rightarrow> string \<Rightarrow> analysis_result" where
  \<comment> \<open>the analysis result when the scoring service plays no part\<close>
  "rule_based_result E currentDate cs issueType =
     \<lparr> totalCustomers = length cs,
       ruleBasedMatches = length (rule_based_matches E currentDate cs issueType),
       finalMatches = length (rule_based_matches E currentDate cs issueType),
       customers = rule_based_matches E currentDate cs issueType,
       confidence = ''rule-based'',
       aiEnhanced = False,
       aiInsights = None,
       aiError = None,
       insights = generateInsights E issueType (rule_based_matches E currentDate cs issueType) \<rparr>"

definition scoring_called :: "jsobj \<Rightarrow> bool \<Rightarrow> jsobj list \<Rightarrow> bool" where
  "scoring_called options apiKey ruleFiltered =
     (truthy (field options ''useAI'') \<and> apiKey \<and> ruleFiltered \<noteq> [])"

definition scoring_failed :: "ai_outcome \<Rightarrow> bool" where
  \<comment> \<open>the service throws, returns no analysis list, or returns a list with a null entry\<close>
  "scoring_failed outcome =
     (case outcome of
        AiThrows message \<Rightarrow> True
      | AiReturns aiAnalysis \<Rightarrow>
          (case analysis aiAnalysis of None \<Rightarrow> True | Some entries \<Rightarrow> ItemNull \<in> set entries))"

definition recorded_error :: "ai_outcome \<Rightarrow> string option" where
  "recorded_error outcome =
     (case outcome of
        AiThrows message \<Rightarrow> Some (err_text message)
      | AiReturns aiAnalysis \<Rightarrow>
          (case analysis aiAnalysis of None \<Rightarrow> None | Some entries \<Rightarrow> Some null_entry_message))"

definition without_ai_fields :: "analysis_result \<Rightarrow> analysis_result" where
  "without_ai_fields r = r \<lparr> aiEnhanced := False, aiInsights := None, aiError := None \<rparr>"

definition response_of :: "http_error + analyze_response \<Rightarrow> analysis_result option" where
  "response_of x = (case x of Inl e \<Rightarrow> None | Inr r \<Rightarrow> Some (analysisResult r))"



definition confident_count :: "js_engine \<Rightarrow> jsval \<Rightarrow> jsobj list \<Rightarrow> nat" where
  \<comment> \<open>the number of customers whose merged confidence is at least the threshold\<close>
  "confident_count E threshold cs =
     length (filter (\<lambda>c. js_ge E (field c ''aiConfidence'') threshold) cs)"


definition effective_threshold :: "jsobj \<Rightarrow> jsval" where
  \<comment> \<open>\<open>options.minConfidence || 0.7\<close>\<close>
  "effective_threshold options =
     (if blank (field options ''minConfidence'') then JNum (7 / 10)
      else field options ''minConfidence'')"









definition status_for :: "(nat \<Rightarrow> jsobj \<Rightarrow> mailer_outcome) \<Rightarrow> nat \<Rightarrow> jsobj \<Rightarrow> string" where
  \<comment> \<open>the outcome of one customer: no address, mailer success, mailer failure\<close>
  "status_for sendLetter i customer =
     (if blank (field customer ''EMAIL'') then ''skipped''
      else case sendLetter i customer of Delivered \<Rightarrow> ''sent'' | Fails message code \<Rightarrow> ''failed'')"

definition render_fails ::
  "(jsobj \<Rightarrow> string \<Rightarrow> string \<Rightarrow> string + letter_data) \<Rightarrow> string \<Rightarrow> string \<Rightarrow> jsobj \<Rightarrow> bool" where
  "render_fails generateLetterContent issueType customMessage customer =
     (case generateLetterContent customer issueType customMessage of
        Inl message \<Rightarrow> True | Inr letterData \<Rightarrow> False)"

definition letter_of ::
  "(jsobj \<Rightarrow> string \<Rightarrow> string \<Rightarrow> string + letter_data) \<Rightarrow>
   (string \<Rightarrow> jsobj \<Rightarrow> string + pdf_buffer) \<Rightarrow> string \<Rightarrow> string \<Rightarrow> bool \<Rightarrow>
   nat \<times> jsobj \<Rightarrow> letter_result option" where
  "letter_of generateLetterContent generateLetterPDF issueType customMessage generatePDF p =
     (case generateLetterContent (snd p) issueType customMessage of
        Inr letterData \<Rightarrow> Some (letter_for generateLetterPDF generatePDF (fst p) (snd p) letterData)
      | Inl message \<Rightarrow> None)"

definition error_of ::
  "(jsobj \<Rightarrow> string \<Rightarrow> string \<Rightarrow> string + letter_data) \<Rightarrow> string \<Rightarrow> string \<Rightarrow>
   jsobj \<Rightarrow> letter_error option" where
  "error_of generateLetterContent issueType customMessage customer =
     (case generateLetterContent customer issueType customMessage of
        Inl message \<Rightarrow> Some \<lparr> le_customer = customer_ref customer, le_error = message \<rparr>
      | Inr letterData \<Rightarrow> None)"

subsection \<open>A sample engine and sample inputs\<close>

text \<open>
  The examples run on an engine whose date parser reads ISO dates (\<open>YYYY-MM-DD\<close>, UTC
  midnight), whose number printer writes whole numbers in decimal and whose conversion
  of strings to numbers is that of \<open>parseFloat\<close>; the examples print whole numbers only and
  convert no string. The theorems hold for every engine.
\<close>

definition nat_digit :: "nat \<Rightarrow> char" where
  "nat_digit d = ''0123456789'' ! d"

fun nat_digits :: "nat \<Rightarrow> string" where
  "nat_digits n = (if n < 10 then [nat_digit n] else nat_digits (n div 10) @ [nat_digit (n mod 10)])"

declare nat_digits.simps [simp del]

definition whole_number_string :: "rat \<Rightarrow> string" where
  "whole_number_string r =
     (if r < 0 then CHR ''-'' # nat_digits (nat (- trunc_rat r)) else nat_digits (nat (trunc_rat r)))"

definition days_from_civil :: "int \<Rightarrow> int \<Rightarrow> int \<Rightarrow> int" where
  "days_from_civil y m d =
     (let y' = (if m \<le> 2 then y - 1 else y);
          era = y' div 400;
          yoe = y' - era * 400;
          doy = (153 * (if 2 < m then m - 3 else m + 9) + 2) div 5 + d - 1;
          doe = yoe * 365 + yoe div 4 - yoe div 100 + doy
      in era * 146097 + doe - 719468)"

definition days_in_month :: "int \<Rightarrow> int \<Rightarrow> int" where
  "days_in_month y m =
     (if m = 2 then (if y mod 4 = 0 \<and> (y mod 100 \<noteq> 0 \<or> y mod 400 = 0) then 29 else 28)
      else if m = 4 \<or> m = 6 \<or> m = 9 \<or> m = 11 then 30 else 31)"

definition iso_date :: "string \<Rightarrow> int option" where
  "iso_date s =
     (let ys = take 4 s; ms = take 2 (drop 5 s); ds = drop 8 s;
          y = int (digits_val ys); m = int (digits_val ms); d = int (digits_val ds)
      in if length s = 10 \<and> take 1 (drop 4 s) = ''-'' \<and> take 1 (drop 7 s) = ''-''
            \<and> list_all is_digit (ys @ ms @ ds)
            \<and> 1 \<le> m \<and> m \<le> 12 \<and> 1 \<le> d \<and> d \<le> days_in_month y m
         then Some (days_from_civil y m d * 86400000)
         else None)"

definition sample_engine :: js_engine where
  "sample_engine =
     \<lparr> numToString = whole_number_string,
       strToNumber = parseFloat_str,
       dateParse = iso_date \<rparr>"

definition new_year_2025 :: int where
  \<comment> \<open>2025-01-01T00:00:00Z\<close>
  "new_year_2025 = 1735689600000"

definition customer_A1 :: jsobj where
  "customer_A1 = [(''ACCOUNT_NO'', JStr ''A1''), (''BALANCE'', JNum 0)]"

definition customer_A2 :: jsobj where
  "customer_A2 =
     [(''ACCOUNT_NO'', JStr ''A2''), (''BALANCE'', JNum 500),
      (''LAST_TRANSACTION'', JStr ''2024-01-01'')]"

definition customer_A7 :: jsobj where
  \<comment> \<open>the balance under its lower-case name\<close>
  "customer_A7 =
     [(''ACCOUNT_NO'', JStr ''A7''), (''balance'', JNum 5000),
      (''LAST_TRANSACTION'', JStr ''2024-12-31'')]"

definition customer_A8 :: jsobj where
  \<comment> \<open>the last transaction under its lower-case name\<close>
  "customer_A8 =
     [(''ACCOUNT_NO'', JStr ''A8''), (''BALANCE'', JNum 5000),
      (''last_transaction'', JStr ''2024-12-31'')]"

definition customer_A9 :: jsobj where
  \<comment> \<open>the last transaction under its camel-case name\<close>
  "customer_A9 =
     [(''ACCOUNT_NO'', JStr ''A9''), (''BALANCE'', JNum 5000),
      (''lastTransaction'', JStr ''2024-12-31'')]"

definition customer_A10 :: jsobj where
  \<comment> \<open>a \<open>BALANCE\<close> of 0 beside a \<open>balance\<close> of 5000\<close>
  "customer_A10 =
     [(''ACCOUNT_NO'', JStr ''A10''), (''BALANCE'', JNum 0), (''balance'', JNum 5000),
      (''LAST_TRANSACTION'', JStr ''2024-12-31'')]"

definition customer_no_kyc :: jsobj where
  "customer_no_kyc =
     [(''NAME'', JStr ''Amit Sharma''), (''ACCOUNT_NO'', JStr ''SBIN0001001''),
      (''EMAIL'', JStr ''amit@example.com''), (''MOBILE'', JStr ''9876543210'')]"

definition customer_doc_30 :: jsobj where
  "customer_doc_30 =
     [(''NAME'', JStr ''Sita Rao''), (''ACCOUNT_NO'', JStr ''SBIN0001002''),
      (''DOC_STATUS'', JStr ''Valid''), (''DAYS_TO_EXPIRY'', JNum 30)]"

definition customer_doc_today :: jsobj where
  "customer_doc_today =
     [(''NAME'', JStr ''Ramesh Gupta''), (''ACCOUNT_NO'', JStr ''SBIN0001003''),
      (''DOC_STATUS'', JStr ''Valid''), (''DOC_EXPIRY_DAYS'', JNum 0)]"

definition mail_customer :: "string \<Rightarrow> string \<Rightarrow> jsobj" where
  "mail_customer acct email =
     [(''NAME'', JStr ''Customer''), (''ACCOUNT_NO'', JStr acct), (''EMAIL'', JStr email)]"


definition sample_letter :: letter_data where
  "sample_letter =
     \<lparr> ld_subject = ''Important Notice - Account Status Review'',
       ld_content = ''STATE BANK OF INDIA'',
       ld_urgency = ''high'' \<rparr>"

definition render_sample :: "jsobj \<Rightarrow> string \<Rightarrow> string \<Rightarrow> string + letter_data" where
  "render_sample customer issueType customMessage = Inr sample_letter"

definition pdf_down :: "string \<Rightarrow> jsobj \<Rightarrow> string + pdf_buffer" where
  "pdf_down letterContent customer = Inl ''PDF generation failed: out of memory''"

definition ai_offline :: "jsobj list \<Rightarrow> string \<Rightarrow> ai_outcome" where
  "ai_offline toAnalyze issueType = AiThrows ''AI analysis failed: fetch failed''"

definition ai_no_list :: "jsobj list \<Rightarrow> string \<Rightarrow> ai_outcome" where
  "ai_no_list toAnalyze issueType = AiReturns \<lparr> analysis = None, summary = None \<rparr>"

definition ai_null_entry :: "jsobj list \<Rightarrow> string \<Rightarrow> ai_outcome" where
  "ai_null_entry toAnalyze issueType = AiReturns \<lparr> analysis = Some [ItemNull], summary = None \<rparr>"



definition entry_no_confidence :: jsobj where
  "entry_no_confidence = [(''account_no'', JStr ''A1'')]"

definition ai_no_confidence :: "jsobj list \<Rightarrow> string \<Rightarrow> ai_outcome" where
  "ai_no_confidence toAnalyze issueType =
     AiReturns \<lparr> analysis = Some [ItemObj entry_no_confidence], summary = None \<rparr>"

text \<open>
  The request \<open>{customers: [A1], issueType: 'account_closure', options: {useAI: true}}\<close>
  and the options the validation hands to the handler for it.
\<close>

definition request_A1 :: analyze_request where
  "request_A1 =
     \<lparr> req_customers = [customer_A1],
       req_issueType = JStr ''account_closure'',
       req_options = Some \<lparr> opt_useAI = Some True, opt_aiProvider = None,
                             opt_confidenceThreshold = None, opt_maxResults = None,
                             opt_unknown_keys = [] \<rparr> \<rparr>"

definition options_ai :: jsobj where
  "options_ai =
     [(''useAI'', JBool True), (''aiProvider'', JStr ''gemini''),
      (''confidenceThreshold'', JNum (7 / 10)), (''maxResults'', JNum 100)]"

section \<open>Batch splitting\<close>

lemma slice_full:
  "i + n < length xs \<Longrightarrow> length (slice xs i (i + n)) = n"
  by (simp add: slice_def)

lemma slice_le: "length (slice xs i (i + n)) \<le> n"
  by (simp add: slice_def)

lemma slice_nonempty:
  "i < length xs \<Longrightarrow> 0 < n \<Longrightarrow> slice xs i (i + n) \<noteq> []"
  by (simp add: slice_def)

lemma slice_then_rest:
  "slice xs i (i + n) @ drop (i + n) xs = drop i xs"
proof -
  have "take n (drop i xs) @ drop n (drop i xs) = drop i xs"
    by (rule append_take_drop_id)
  then show ?thesis
    by (simp add: slice_def add.commute)
qed

text \<open>
  The loop returns whenever the batch size is positive. The induction is on the number
  of items still to be sliced; the accumulator and the index are generalised.
\<close>

lemma split_loop_returns:
  assumes "0 < n"
  shows "\<exists>bs. split_loop xs n i acc = Some (acc @ bs)
           \<and> concat bs = drop i xs
           \<and> (bs = []) = (length xs \<le> i)
           \<and> list_all (\<lambda>b. b \<noteq> [] \<and> length b \<le> n) bs
           \<and> list_all (\<lambda>b. length b = n) (butlast bs)"
proof (induction "length xs - i" arbitrary: i acc rule: less_induct)
  case less
  show ?case
  proof (cases "i < length xs")
    case False
    then have "split_loop xs n i acc = Some (acc @ [])"
      by (subst split_loop.simps) simp
    with False show ?thesis
      by (intro exI [of _ "[]"]) simp
  next
    case True
    let ?s = "slice xs i (i + n)"
    from True assms have "length xs - (i + n) < length xs - i"
      by arith
    from less [OF this, of "acc @ [?s]"]
    obtain bs where
      run: "split_loop xs n (i + n) (acc @ [?s]) = Some ((acc @ [?s]) @ bs)" and
      cat: "concat bs = drop (i + n) xs" and
      emp: "(bs = []) = (length xs \<le> i + n)" and
      all: "list_all (\<lambda>b. b \<noteq> [] \<and> length b \<le> n) bs" and
      but: "list_all (\<lambda>b. length b = n) (butlast bs)"
      by blast
    from True run have "split_loop xs n i acc = Some (acc @ (?s # bs))"
      by (subst split_loop.simps) simp
    moreover from cat have "concat (?s # bs) = drop i xs"
      by (simp add: slice_then_rest)
    moreover from True have "((?s # bs) = []) = (length xs \<le> i)"
      by simp
    moreover from all True assms
    have "list_all (\<lambda>b. b \<noteq> [] \<and> length b \<le> n) (?s # bs)"
      by (simp add: slice_le slice_nonempty)
    moreover have "list_all (\<lambda>b. length b = n) (butlast (?s # bs))"
    proof (cases "bs = []")
      case True
      then show ?thesis by simp
    next
      case False
      with emp have "i + n < length xs" by simp
      then have "length ?s = n" by (rule slice_full)
      with False but show ?thesis by simp
    qed
    ultimately show ?thesis by blast
  qed
qed

lemma batch_size_or_positive: "0 < d \<Longrightarrow> 0 < batch_size_or d b"
  by (simp add: batch_size_or_def split: option.splits)

lemma route_split_returns:
  "\<exists>bs. split_batches cs (batch_size_or 10 b) = Some bs"
proof -
  have "0 < batch_size_or 10 b"
    by (rule batch_size_or_positive) simp
  from split_loop_returns [OF this, of cs 0 "[]"] show ?thesis
    by (auto simp: split_batches_def)
qed

text \<open>
  Claim C2. For every non-empty list of items and every batch size \<open>n \<ge> 1\<close> the
  splitting loop returns; the batches it returns, concatenated, are the original list
  in the original order; no batch has more than \<open>n\<close> items, and every batch but the
  last has exactly \<open>n\<close>.
\<close>

theorem split_then_flatten:
  assumes "items \<noteq> []" and "1 \<le> n"
  shows "\<exists>batches. split_batches items n = Some batches
           \<and> concat batches = items
           \<and> list_all (\<lambda>b. length b \<le> n) batches
           \<and> list_all (\<lambda>b. length b = n) (butlast batches)"
proof -
  from assms(2) have "0 < n" by simp
  from split_loop_returns [OF this, of items 0 "[]"]
  obtain bs where
    "split_loop items n 0 [] = Some bs" and "concat bs = items" and
    "list_all (\<lambda>b. b \<noteq> [] \<and> length b \<le> n) bs" and
    "list_all (\<lambda>b. length b = n) (butlast bs)"
    by auto
  then show ?thesis
    by (auto simp: split_batches_def list_all_iff)
qed

text \<open>Five items in batches of two: two full batches and a last one of one item.\<close>

theorem split_then_flatten_witness:
  "[1, 2, 3, 4, 5 :: nat] \<noteq> [] \<and> (1 :: nat) \<le> 2
   \<and> split_batches [1, 2, 3, 4, 5 :: nat] 2 = Some [[1, 2], [3, 4], [5]]
   \<and> (\<exists>batches. split_batches [1, 2, 3, 4, 5 :: nat] 2 = Some batches
          \<and> concat batches = [1, 2, 3, 4, 5]
          \<and> list_all (\<lambda>b. length b \<le> 2) batches
          \<and> list_all (\<lambda>b. length b = 2) (butlast batches))"
proof -
  have run: "split_batches [1, 2, 3, 4, 5 :: nat] 2 = Some [[1, 2], [3, 4], [5]]"
    by (simp add: split_batches_def split_loop.simps slice_def)
  have "[1, 2, 3, 4, 5 :: nat] \<noteq> []" and "(1 :: nat) \<le> 2"
    by simp_all
  from split_then_flatten [OF this] run show ?thesis
    by simp
qed

section \<open>The rules\<close>

lemmas eval_simps =
  field_def js_or_def num_or_def is_digit_def is_ws_def is_upper_def digits_val_def pow10_def
  exponent_part_def parseFloat_str_def parseInt10_str_def parseInt10_num_def trunc_rat_def
  toLowerCase_def lower_char_def test_expired_pending_def
  iso_date_def days_from_civil_def days_in_month_def sample_engine_def

lemma blank_iff: "blank v = (\<not> truthy v)"
  by (cases v) simp_all

lemma js_or_undef: "js_or JUndef b = b"
  by (simp add: js_or_def)

lemma field_noncanonical:
  assumes "canonical obj" and "\<not> canonical_key k"
  shows "field obj k = JUndef"
proof -
  from assms have "k \<notin> fst ` set obj"
    by (auto simp: canonical_def list_all_iff)
  then have "map_of obj k = None"
    by (simp add: map_of_eq_None_iff)
  then show ?thesis
    by (simp add: field_def)
qed

lemma alias_keys_noncanonical:
  "\<not> canonical_key ''balance''"
  "\<not> canonical_key ''last_transaction''"
  "\<not> canonical_key ''lastTransaction''"
  by (simp_all add: canonical_key_def is_upper_def is_digit_def)

lemma parseFloat_str_empty: "parseFloat_str [] = NaN"
  by (simp add: parseFloat_str_def)

lemma code_balance_eq_spec:
  "num_or (parseFloat (js_or v (JNum 0))) (Fin 0) = (case parseFloat v of NaN \<Rightarrow> Fin 0 | n \<Rightarrow> n)"
  by (cases v) (auto simp: js_or_def num_or_def parseFloat_str_empty split: jsnum.splits)

lemma iso_2024: "iso_date ''2024-01-01'' = Some 1704067200000"
  by (simp add: eval_simps)

lemma js_or_assoc: "js_or a (js_or b c) = js_or (js_or a b) c"
  by (simp add: js_or_def)

lemma account_closure_reads_aliases:
  "rule_matches E now ''account_closure'' customer
   = (let b = js_or (field customer ''BALANCE'') (field customer ''balance'');
          v = js_or (field customer ''LAST_TRANSACTION'')
                (js_or (field customer ''last_transaction'') (field customer ''lastTransaction''))
      in num_le (case parseFloat b of NaN \<Rightarrow> Fin 0 | n \<Rightarrow> n) 100
         \<or> 90 < (if blank v then 9999
                  else case newDate E v of None \<Rightarrow> 9999 | Some t \<Rightarrow> (now - t) div 86400000))"
proof -
  let ?b = "js_or (field customer ''BALANCE'') (field customer ''balance'')"
  let ?v = "js_or (field customer ''LAST_TRANSACTION'')
              (js_or (field customer ''last_transaction'') (field customer ''lastTransaction''))"
  have bal: "num_or (parseFloat (js_or (field customer ''BALANCE'')
                (js_or (field customer ''balance'') (JNum 0)))) (Fin 0)
             = (case parseFloat ?b of NaN \<Rightarrow> Fin 0 | n \<Rightarrow> n)"
    by (simp only: js_or_assoc code_balance_eq_spec)
  have raw: "js_or (field customer ''LAST_TRANSACTION'')
                (js_or (field customer ''last_transaction'')
                (js_or (field customer ''lastTransaction'') JNull))
             = js_or ?v JNull"
    by (simp only: js_or_assoc)
  have days: "(case (if truthy (js_or ?v JNull) then newDate E (js_or ?v JNull) else None) of
                Some t \<Rightarrow> (now - t) div (1000 * 60 * 60 * 24)
              | None \<Rightarrow> 9999)
              = (if blank ?v then 9999
                 else case newDate E ?v of None \<Rightarrow> 9999 | Some t \<Rightarrow> (now - t) div 86400000)"
    by (cases "truthy ?v") (simp_all add: blank_iff js_or_def [of ?v JNull] split: option.split)
  show ?thesis
    unfolding rule_matches_def account_closure_rule_def Let_def bal raw days
    by simp
qed

lemma first_present_balance:
  "(case parseFloat (js_or a b) of NaN \<Rightarrow> Fin 0 | n \<Rightarrow> n)
   = (case parseFloat (first_present [a, b]) of NaN \<Rightarrow> Fin 0 | n \<Rightarrow> n)"
  by (cases a; cases b) (simp_all add: js_or_def parseFloat_str_empty)

lemma first_present_date:
  "(if blank (js_or a (js_or b c)) then 9999
    else case newDate E (js_or a (js_or b c)) of None \<Rightarrow> 9999 | Some t \<Rightarrow> (now - t) div 86400000)
   = (if blank (first_present [a, b, c]) then 9999
      else case newDate E (first_present [a, b, c]) of
             None \<Rightarrow> 9999 | Some t \<Rightarrow> (now - t) div 86400000)"
  by (simp add: js_or_def blank_iff)

lemma iso_2024_12_31: "iso_date ''2024-12-31'' = Some 1735603200000"
  by (simp add: eval_simps)

text \<open>
  Claim C1, as amended. For every customer record and every current time, the
  \<open>account_closure\<close> rule matches the customer if and only if the parsed balance, taken
  as 0 when missing or unparsable, is at most 100, or the number of whole days from the
  parsed last-transaction date to the current time, taken as 9999 when the date is
  missing or unparsable, exceeds 90. The balance is read from \<open>BALANCE\<close> or, when that
  is blank, from \<open>balance\<close>; the date from \<open>LAST_TRANSACTION\<close> or, when that is blank,
  from \<open>last_transaction\<close> and then \<open>lastTransaction\<close>.
\<close>

theorem account_closure_iff_with_aliases:
  "rule_matches E now ''account_closure'' customer
   = (num_le (balance_of customer) 100 \<or> 90 < days_since_of E now customer)"
  unfolding account_closure_reads_aliases balance_of_def days_since_of_def Let_def
    first_present_balance first_present_date
  by (rule refl)

text \<open>
  The second customer of the specification's scenario: a balance of 500 and a last
  transaction on 2024-01-01, seen on 2025-01-01, 366 days later, is matched. A customer
  with 5000 under \<open>balance\<close> and a transaction the day before is not.
\<close>

theorem account_closure_iff_with_aliases_witness:
  "balance_of customer_A2 = Fin 500
   \<and> days_since_of sample_engine new_year_2025 customer_A2 = 366
   \<and> rule_matches sample_engine new_year_2025 ''account_closure'' customer_A2
   \<and> balance_of customer_A7 = Fin 5000
   \<and> days_since_of sample_engine new_year_2025 customer_A7 = 1
   \<and> \<not> rule_matches sample_engine new_year_2025 ''account_closure'' customer_A7"
proof -
  have b2: "balance_of customer_A2 = Fin 500"
    by (simp add: customer_A2_def balance_of_def field_def)
  have d2: "days_since_of sample_engine new_year_2025 customer_A2 = 366"
    by (simp add: customer_A2_def days_since_of_def field_def sample_engine_def iso_2024
        new_year_2025_def)
  have b7: "balance_of customer_A7 = Fin 5000"
    by (simp add: customer_A7_def balance_of_def field_def)
  have d7: "days_since_of sample_engine new_year_2025 customer_A7 = 1"
    by (simp add: customer_A7_def days_since_of_def field_def sample_engine_def iso_2024_12_31
        new_year_2025_def)
  from account_closure_iff_with_aliases [of sample_engine new_year_2025 customer_A2]
    account_closure_iff_with_aliases [of sample_engine new_year_2025 customer_A7]
    b2 d2 b7 d7
  show ?thesis
    by simp
qed

text \<open>
  As stated, with the balance read from \<open>BALANCE\<close> and the date from
  \<open>LAST_TRANSACTION\<close> alone, the claim fails on records that carry a field under
  another of its names. On 2025-01-01 a customer with 5000 under \<open>balance\<close> and a
  transaction the day before has no \<open>BALANCE\<close>, which the claim takes as 0, and is
  not selected. A customer with a \<open>BALANCE\<close> of 5000 and a \<open>last_transaction\<close> or a
  \<open>lastTransaction\<close> of the day before has no \<open>LAST_TRANSACTION\<close>, which the claim
  takes as 9999 days, and is not selected. And a customer with a \<open>BALANCE\<close> of 0, a
  \<open>balance\<close> of 5000 and a transaction the day before is not selected: the blank
  \<open>BALANCE\<close> gives way to \<open>balance\<close>.
\<close>

theorem account_closure_counterexample:
  "spec_balance customer_A7 = Fin 0
   \<and> num_le (spec_balance customer_A7) 100
   \<and> filterCustomersByRule sample_engine new_year_2025 [customer_A7] ''account_closure'' = []
   \<and> spec_days_since sample_engine new_year_2025 customer_A8 = 9999
   \<and> filterCustomersByRule sample_engine new_year_2025 [customer_A8] ''account_closure'' = []
   \<and> spec_days_since sample_engine new_year_2025 customer_A9 = 9999
   \<and> filterCustomersByRule sample_engine new_year_2025 [customer_A9] ''account_closure'' = []
   \<and> spec_balance customer_A10 = Fin 0
   \<and> filterCustomersByRule sample_engine new_year_2025 [customer_A10] ''account_closure'' = []"
proof -
  have "spec_balance customer_A7 = Fin 0"
    by (simp add: spec_balance_def customer_A7_def field_def)
  moreover have "spec_days_since sample_engine new_year_2025 customer_A8 = 9999"
    by (simp add: spec_days_since_def customer_A8_def field_def)
  moreover have "spec_days_since sample_engine new_year_2025 customer_A9 = 9999"
    by (simp add: spec_days_since_def customer_A9_def field_def)
  moreover have "spec_balance customer_A10 = Fin 0"
    by (simp add: spec_balance_def customer_A10_def field_def)
  moreover have "\<not> rule_matches sample_engine new_year_2025 ''account_closure'' customer_A7"
    unfolding account_closure_reads_aliases
    by (simp add: customer_A7_def field_def js_or_def sample_engine_def iso_2024_12_31
        new_year_2025_def)
  moreover have "\<not> rule_matches sample_engine new_year_2025 ''account_closure'' customer_A8"
    unfolding account_closure_reads_aliases
    by (simp add: customer_A8_def field_def js_or_def sample_engine_def iso_2024_12_31
        new_year_2025_def)
  moreover have "\<not> rule_matches sample_engine new_year_2025 ''account_closure'' customer_A9"
    unfolding account_closure_reads_aliases
    by (simp add: customer_A9_def field_def js_or_def sample_engine_def iso_2024_12_31
        new_year_2025_def)
  moreover have "\<not> rule_matches sample_engine new_year_2025 ''account_closure'' customer_A10"
    unfolding account_closure_reads_aliases
    by (simp add: customer_A10_def field_def js_or_def sample_engine_def iso_2024_12_31
        new_year_2025_def)
  ultimately show ?thesis
    by (simp add: filterCustomersByRule_def)
qed

text \<open>
  On the records keyed by the upper-case names alone the two readings agree, and the
  rule is the one the specification words.
\<close>

lemma account_closure_on_canonical_records:
  assumes "canonical customer"
  shows "rule_matches E now ''account_closure'' customer
         = (num_le (spec_balance customer) 100 \<or> 90 < spec_days_since E now customer)"
proof -
  have b: "field customer ''balance'' = JUndef"
    and l1: "field customer ''last_transaction'' = JUndef"
    and l2: "field customer ''lastTransaction'' = JUndef"
    using assms by (simp_all add: field_noncanonical alias_keys_noncanonical)
  let ?v = "field customer ''LAST_TRANSACTION''"
  have bal: "num_or (parseFloat (js_or (field customer ''BALANCE'')
                (js_or (field customer ''balance'') (JNum 0)))) (Fin 0)
             = spec_balance customer"
    by (simp only: b js_or_undef code_balance_eq_spec spec_balance_def)
  have raw: "js_or ?v (js_or (field customer ''last_transaction'')
                (js_or (field customer ''lastTransaction'') JNull))
             = (if truthy ?v then ?v else JNull)"
    by (simp add: l1 l2 js_or_undef js_or_def)
  have days: "(case (if truthy (if truthy ?v then ?v else JNull)
                     then newDate E (if truthy ?v then ?v else JNull) else None) of
                Some t \<Rightarrow> (now - t) div (1000 * 60 * 60 * 24)
              | None \<Rightarrow> 9999)
              = spec_days_since E now customer"
    by (simp add: spec_days_since_def blank_iff split: option.split)
  show ?thesis
    unfolding rule_matches_def account_closure_rule_def Let_def bal raw days
    by simp
qed

text \<open>
  Claim C7. The specification has the \<open>kyc_update\<close> rule match a customer whose
  \<open>KYC_STATUS\<close> is empty or missing. The filter does not: a customer with an e-mail
  address, a mobile number and no \<open>KYC_STATUS\<close> field satisfies the rule as specified
  and is not selected, because the pattern is tested on the empty string.
\<close>

theorem kyc_update_missing_status_not_matched:
  "claimed_kyc_update E customer_no_kyc
   \<and> filterCustomersByRule E now [customer_no_kyc] ''kyc_update'' = []"
  by (simp add: claimed_kyc_update_def filterCustomersByRule_def rule_matches_def
      kyc_update_rule_def customer_no_kyc_def eval_simps)

text \<open>
  Claim C6. The specification has the \<open>document_expiry\<close> rule read \<open>DAYS_TO_EXPIRY\<close>
  (the name the validation schema and the letter template use). The filter reads
  \<open>DOC_EXPIRY_DAYS\<close> and its aliases instead: a customer whose documents are valid and
  expire in 30 days satisfies the rule as specified and is not selected.
\<close>

theorem document_expiry_days_to_expiry_not_read:
  "claimed_document_expiry E customer_doc_30
   \<and> filterCustomersByRule E now [customer_doc_30] ''document_expiry'' = []"
  by (simp add: claimed_document_expiry_def filterCustomersByRule_def rule_matches_def
      document_expiry_rule_def customer_doc_30_def eval_simps)

text \<open>
  Under the name the filter does read, a document that expires today (0 days left) is
  not selected either: \<open>parseInt(...) || 9999\<close> takes 0 for a missing value.
\<close>

lemma document_expiry_zero_days_not_matched:
  "filterCustomersByRule E now [customer_doc_today] ''document_expiry'' = []"
  by (simp add: filterCustomersByRule_def rule_matches_def document_expiry_rule_def
      customer_doc_today_def eval_simps)

section \<open>The analysis handler\<close>

lemma unknown_issue_type_no_match:
  assumes "it \<notin> set issue_types"
  shows "rule_matches E now it c = False"
  using assms by (simp add: rule_matches_def issue_types_def)

lemma filter_unknown_issue_type:
  assumes "it \<notin> set issue_types"
  shows "filterCustomersByRule E now cs it = []"
  using assms by (simp add: filterCustomersByRule_def unknown_issue_type_no_match)

lemma validate_unknown_issue_type:
  assumes "it \<notin> set issue_types"
  shows "\<exists>p. validateAnalysisRequest \<lparr> req_customers = cs, req_issueType = JStr it, req_options = ro \<rparr>
             = Inl p"
  using assms by (simp add: validateAnalysisRequest_def)

text \<open>
  Claim C8, as amended. For every list of customers and every issue type outside the
  five-value enumeration, the filter returns no customer, and the handler, were it
  reached, would answer with an empty match set and no error. The route does not reach
  it: the validation middleware answers such a request with status 400, \<open>Validation
  failed\<close>.
\<close>

theorem unknown_issue_type_rejected_by_route:
  assumes "it \<notin> set issue_types"
  shows "filterCustomersByRule E now cs it = []
       \<and> (\<exists>r. analyze E apiKey now ai cs it options = Inr r
              \<and> customers (analysisResult r) = [] \<and> finalMatches (analysisResult r) = 0)
       \<and> (\<exists>p. analyze_route E apiKey now ai
                 \<lparr> req_customers = cs, req_issueType = JStr it, req_options = ro \<rparr>
               = Inl \<lparr> status = 400, error = ''Validation failed'', error_field = p \<rparr>)"
proof -
  have f: "filterCustomersByRule E now (map normalizeAccountKey cs) it = []"
    using assms by (rule filter_unknown_issue_type)
  have h: "\<exists>r. analyze E apiKey now ai cs it options = Inr r
              \<and> customers (analysisResult r) = [] \<and> finalMatches (analysisResult r) = 0"
    by (simp add: analyze_def f Let_def)
  from validate_unknown_issue_type [OF assms, of cs ro] obtain p where
    "validateAnalysisRequest \<lparr> req_customers = cs, req_issueType = JStr it, req_options = ro \<rparr> = Inl p"
    by blast
  then have r: "\<exists>p. analyze_route E apiKey now ai
                 \<lparr> req_customers = cs, req_issueType = JStr it, req_options = ro \<rparr>
               = Inl \<lparr> status = 400, error = ''Validation failed'', error_field = p \<rparr>"
    by (simp add: analyze_route_def)
  from filter_unknown_issue_type [OF assms] h r show ?thesis
    by blast
qed


theorem unknown_issue_type_rejected_by_route_witness:
  "''vip_upgrade'' \<notin> set issue_types
   \<and> filterCustomersByRule sample_engine new_year_2025 [customer_A1] ''vip_upgrade'' = []
   \<and> (\<exists>r. analyze sample_engine True new_year_2025 ai_offline [customer_A1] ''vip_upgrade'' [] = Inr r
          \<and> customers (analysisResult r) = [] \<and> finalMatches (analysisResult r) = 0)
   \<and> (\<exists>p. analyze_route sample_engine True new_year_2025 ai_offline
             \<lparr> req_customers = [customer_A1], req_issueType = JStr ''vip_upgrade'', req_options = None \<rparr>
           = Inl \<lparr> status = 400, error = ''Validation failed'', error_field = p \<rparr>)"
proof -
  have "''vip_upgrade'' \<notin> set issue_types"
    by (simp add: issue_types_def)
  from this unknown_issue_type_rejected_by_route [OF this] show ?thesis
    by blast
qed

text \<open>
  As stated, the claim fails on the route: a request for the issue type \<open>vip_upgrade\<close>
  is answered with an error and not with an empty match set.
\<close>

theorem unknown_issue_type_counterexample:
  "''vip_upgrade'' \<notin> set issue_types
   \<and> analyze_route sample_engine True new_year_2025 ai_offline
        \<lparr> req_customers = [customer_A1], req_issueType = JStr ''vip_upgrade'', req_options = None \<rparr>
      = Inl \<lparr> status = 400, error = ''Validation failed'', error_field = ''issueType'' \<rparr>"
  by (simp add: issue_types_def analyze_route_def validateAnalysisRequest_def)

lemma build_aiMap_null:
  "ItemNull \<in> set entries \<Longrightarrow> build_aiMap E entries m = Inl null_entry_message"
proof (induction entries arbitrary: m)
  case Nil
  then show ?case by simp
next
  case (Cons a entries)
  then show ?case by (cases a) (auto simp: Let_def)
qed

lemma build_aiMap_ok:
  "ItemNull \<notin> set entries \<Longrightarrow> \<exists>m'. build_aiMap E entries m = Inr m'"
proof (induction entries arbitrary: m)
  case Nil
  then show ?case by simp
next
  case (Cons a entries)
  then show ?case by (cases a) (auto simp: Let_def)
qed

lemma err_text_null_entry: "err_text null_entry_message = null_entry_message"
  by (simp add: err_text_def null_entry_message_def)

lemma analyze_without_scoring:
  assumes "\<not> scoring_called options apiKey (rule_based_matches E now cs it)"
  shows "analyze E apiKey now ai cs it options
         = Inr \<lparr> success = True, resp_issueType = it,
                 analysisResult = rule_based_result E now cs it,
                 recommendations = getRecommendations E it (length (rule_based_matches E now cs it)) \<rparr>"
  using assms
  by (auto simp: analyze_def Let_def scoring_called_def rule_based_result_def rule_based_matches_def)

lemma analyze_with_scoring:
  assumes "scoring_called options apiKey (rule_based_matches E now cs it)"
  shows "analyze E apiKey now ai cs it options
         = (let r1 = ai_enhance E ai it options (rule_based_matches E now cs it)
                       ((rule_based_result E now cs it) \<lparr> insights := [] \<rparr>);
                r2 = r1 \<lparr> insights := generateInsights E it (customers r1) \<rparr>
            in Inr \<lparr> success = True, resp_issueType = it, analysisResult = r2,
                     recommendations = getRecommendations E it (finalMatches r2) \<rparr>)"
  using assms
  by (auto simp: analyze_def Let_def scoring_called_def rule_based_result_def rule_based_matches_def)

lemma ai_enhance_failed:
  assumes "scoring_failed (ai (take 100 rf) it)"
  shows "ai_enhance E ai it options rf r0
         = (case ai (take 100 rf) it of
              AiThrows message \<Rightarrow> r0 \<lparr> aiError := Some (err_text message) \<rparr>
            | AiReturns aiAnalysis \<Rightarrow>
                (case analysis aiAnalysis of
                   None \<Rightarrow> r0
                 | Some entries \<Rightarrow>
                     r0 \<lparr> aiEnhanced := True,
                          aiInsights := Some (case summary aiAnalysis of None \<Rightarrow> [] | Some sm \<Rightarrow> sm),
                          aiError := Some null_entry_message \<rparr>))"
  using assms
  by (auto simp: ai_enhance_def scoring_failed_def Let_def build_aiMap_null err_text_null_entry
      split: ai_outcome.splits option.splits)

lemma js_or_threshold:
  "js_or (field options ''minConfidence'') (JNum (7 / 10)) = effective_threshold options"
  by (cases "field options ''minConfidence''") (simp_all add: js_or_def effective_threshold_def)

lemma ai_enhance_merged:
  assumes "ai (take 100 rf) it = AiReturns aiAnalysis"
      and "analysis aiAnalysis = Some entries"
      and "ItemNull \<notin> set entries"
  shows "\<exists>aiMap. build_aiMap E entries Map.empty = Inr aiMap
           \<and> ai_enhance E ai it options rf r0
               = r0 \<lparr> aiEnhanced := True,
                      aiInsights := Some (case summary aiAnalysis of None \<Rightarrow> [] | Some sm \<Rightarrow> sm),
                      customers := map (merge_customer E aiMap) rf,
                      finalMatches := confident_count E (effective_threshold options)
                                        (map (merge_customer E aiMap) rf),
                      confidence := ''ai-enhanced'' \<rparr>"
proof -
  from build_aiMap_ok [OF assms(3)] obtain aiMap where
    "build_aiMap E entries Map.empty = Inr aiMap"
    by blast
  with assms(1,2) show ?thesis
    by (intro exI [of _ aiMap]) (simp add: ai_enhance_def Let_def js_or_threshold confident_count_def)
qed

text \<open>
  Claim C4, as amended. On every input on which the scoring service throws, returns a
  response without an analysis list, or returns a list with a null entry, the handler
  does not abort: it answers successfully, and apart from the auxiliary fields
  \<open>aiEnhanced\<close>, \<open>aiInsights\<close> and \<open>aiError\<close> the analysis result is the rule-based
  result, with all rule-based matches and the rule-based counts. A thrown failure (the
  \<open>TypeError\<close> on a null entry is one) is recorded in \<open>aiError\<close>; a response without
  an analysis list leaves no record.
\<close>

theorem scoring_failure_falls_back:
  assumes "scoring_failed (ai (take 100 (rule_based_matches E now cs it)) it)"
  shows "\<exists>r. analyze E apiKey now ai cs it options = Inr r
           \<and> success r
           \<and> without_ai_fields (analysisResult r) = rule_based_result E now cs it
           \<and> recommendations r = getRecommendations E it (length (rule_based_matches E now cs it))
           \<and> aiError (analysisResult r)
               = (if scoring_called options apiKey (rule_based_matches E now cs it)
                  then recorded_error (ai (take 100 (rule_based_matches E now cs it)) it)
                  else None)"
proof (cases "scoring_called options apiKey (rule_based_matches E now cs it)")
  case False
  then show ?thesis
    by (simp add: analyze_without_scoring without_ai_fields_def rule_based_result_def)
next
  case True
  show ?thesis
    unfolding analyze_with_scoring [OF True]
      ai_enhance_failed [of ai "rule_based_matches E now cs it" it, OF assms]
    using True
    by (auto simp: Let_def without_ai_fields_def rule_based_result_def recorded_error_def
        split: ai_outcome.splits option.splits)
qed


lemma A1_matches:
  "rule_based_matches sample_engine new_year_2025 [customer_A1] ''account_closure'' = [customer_A1]"
  by (simp add: rule_based_matches_def filterCustomersByRule_def rule_matches_def
      account_closure_rule_def normalizeAccountKey_def test_account_key_def is_sep_def
      customer_A1_def new_year_2025_def eval_simps)

lemma normalize_A1: "normalizeAccountKey customer_A1 = customer_A1"
  by (simp add: normalizeAccountKey_def customer_A1_def test_account_key_def is_sep_def
      toLowerCase_def lower_char_def is_ws_def field_def Let_def)

lemma account_value_A1: "getAccountValue customer_A1 = JStr ''A1''"
  by (simp add: getAccountValue_def normalize_A1 Let_def) (simp add: customer_A1_def field_def js_or_def)



lemma aimap_no_confidence:
  "build_aiMap sample_engine [ItemObj entry_no_confidence] Map.empty
   = Inr (Map.empty(''a1'' \<mapsto> entry_no_confidence))"
  by (simp add: entry_no_confidence_def field_def js_or_def toLowerCase_def lower_char_def Let_def)

lemma merge_no_confidence:
  "merge_customer sample_engine (Map.empty(''a1'' \<mapsto> entry_no_confidence)) customer_A1
   = customer_A1 @ [(''aiConfidence'', JUndef), (''aiPriority'', JUndef), (''aiReason'', JUndef)]"
  by (simp add: merge_customer_def account_value_A1 js_or_def toLowerCase_def lower_char_def Let_def)
     (simp add: entry_no_confidence_def customer_A1_def field_def obj_set_def)

lemma validate_A1:
  "validateAnalysisRequest request_A1
   = Inr \<lparr> body_customers = [customer_A1], body_issueType = ''account_closure'',
           body_options = options_ai \<rparr>"
  by (simp add: validateAnalysisRequest_def request_A1_def issue_types_def options_ok_def
      in_range_def options_value_def options_ai_def)

lemma route_A1:
  "analyze_route E apiKey now ai request_A1
   = analyze E apiKey now ai [customer_A1] ''account_closure'' options_ai"
  by (simp add: analyze_route_def validate_A1)

lemma called_A1:
  "scoring_called options_ai True
     (rule_based_matches sample_engine new_year_2025 [customer_A1] ''account_closure'')"
  by (simp add: A1_matches scoring_called_def options_ai_def field_def)

lemma threshold_default: "effective_threshold options_ai = JNum (7 / 10)"
  by (simp add: effective_threshold_def options_ai_def field_def)

lemma null_entry_result:
  "response_of (analyze sample_engine True new_year_2025 ai_null_entry [customer_A1]
      ''account_closure'' options_ai)
   = Some ((rule_based_result sample_engine new_year_2025 [customer_A1] ''account_closure'')
       \<lparr> aiEnhanced := True, aiInsights := Some [], aiError := Some null_entry_message \<rparr>)"
  unfolding analyze_with_scoring [OF called_A1] A1_matches
  by (simp add: ai_enhance_def ai_null_entry_def response_of_def Let_def err_text_null_entry
      rule_based_result_def A1_matches)


lemma no_confidence_result:
  "response_of (analyze sample_engine True new_year_2025 ai_no_confidence [customer_A1]
      ''account_closure'' options_ai)
   = Some ((rule_based_result sample_engine new_year_2025 [customer_A1] ''account_closure'')
       \<lparr> aiEnhanced := True, aiInsights := Some [],
         customers := [customer_A1 @ [(''aiConfidence'', JUndef), (''aiPriority'', JUndef),
                    (''aiReason'', JUndef)]],
         finalMatches := 0,
         confidence := ''ai-enhanced'',
         insights := generateInsights sample_engine ''account_closure''
            [customer_A1 @ [(''aiConfidence'', JUndef), (''aiPriority'', JUndef),
                    (''aiReason'', JUndef)]] \<rparr>)"
  unfolding analyze_with_scoring [OF called_A1] A1_matches
  by (simp add: ai_enhance_def ai_no_confidence_def aimap_no_confidence merge_no_confidence
      response_of_def Let_def js_or_threshold threshold_default del: build_aiMap.simps)
     (simp add: field_def customer_A1_def)

theorem scoring_failure_falls_back_witness:
  "scoring_failed (ai_offline
      (take 100 (rule_based_matches sample_engine new_year_2025 [customer_A1] ''account_closure''))
      ''account_closure'')
   \<and> (\<exists>r. analyze sample_engine True new_year_2025 ai_offline [customer_A1] ''account_closure'' options_ai
            = Inr r
          \<and> success r
          \<and> without_ai_fields (analysisResult r)
              = rule_based_result sample_engine new_year_2025 [customer_A1] ''account_closure''
          \<and> customers (analysisResult r) = [customer_A1]
          \<and> aiError (analysisResult r) = Some ''AI analysis failed: fetch failed'')"
proof -
  have f: "scoring_failed (ai_offline
      (take 100 (rule_based_matches sample_engine new_year_2025 [customer_A1] ''account_closure''))
      ''account_closure'')"
    by (simp add: scoring_failed_def ai_offline_def)
  have c: "scoring_called options_ai True
        (rule_based_matches sample_engine new_year_2025 [customer_A1] ''account_closure'')"
    by (simp add: A1_matches scoring_called_def options_ai_def field_def)
  have e: "recorded_error (ai_offline
      (take 100 (rule_based_matches sample_engine new_year_2025 [customer_A1] ''account_closure''))
      ''account_closure'') = Some ''AI analysis failed: fetch failed''"
    by (simp add: recorded_error_def ai_offline_def err_text_def)
  from scoring_failure_falls_back [of ai_offline sample_engine new_year_2025 "[customer_A1]"
      "''account_closure''" True options_ai, OF f] obtain r where
    r: "analyze sample_engine True new_year_2025 ai_offline [customer_A1] ''account_closure'' options_ai
          = Inr r"
      "success r"
      "without_ai_fields (analysisResult r)
          = rule_based_result sample_engine new_year_2025 [customer_A1] ''account_closure''"
      "aiError (analysisResult r)
          = (if scoring_called options_ai True
                 (rule_based_matches sample_engine new_year_2025 [customer_A1] ''account_closure'')
             then recorded_error (ai_offline
                 (take 100 (rule_based_matches sample_engine new_year_2025 [customer_A1] ''account_closure''))
                 ''account_closure'')
             else None)"
    by blast
  from r(3) have "customers (without_ai_fields (analysisResult r)) = [customer_A1]"
    by (simp add: rule_based_result_def A1_matches)
  then have "customers (analysisResult r) = [customer_A1]"
    by (simp add: without_ai_fields_def)
  with f r c e show ?thesis
    by simp
qed

text \<open>
  As stated, the claim fails in three ways, shown on the request \<open>{customers: [A1],
  issueType: 'account_closure', options: {useAI: true}}\<close>, whose one customer is a
  rule-based match. Where the service answers without an analysis list, the failure is
  recorded in no field. Where the list holds a null entry, the result is marked
  \<open>aiEnhanced\<close> besides carrying the error. And where the list holds an entry that is
  malformed in another way, here \<open>{account_no: 'A1'}\<close> without a confidence, the
  handler does not fall back at all: it reports no match of the one rule-based match,
  the label \<open>ai-enhanced\<close>, the recommendation for an empty result, and no error.
\<close>

theorem scoring_failure_counterexample:
  "scoring_called options_ai True
        (rule_based_matches sample_engine new_year_2025 [customer_A1] ''account_closure'')
   \<and> map_option aiError (response_of
        (analyze sample_engine True new_year_2025 ai_no_list [customer_A1] ''account_closure'' options_ai))
      = Some None
   \<and> map_option aiEnhanced (response_of
        (analyze sample_engine True new_year_2025 ai_null_entry [customer_A1] ''account_closure'' options_ai))
      = Some True
   \<and> finalMatches (rule_based_result sample_engine new_year_2025 [customer_A1] ''account_closure'') = 1
   \<and> map_option finalMatches (response_of
        (analyze sample_engine True new_year_2025 ai_no_confidence [customer_A1] ''account_closure''
           options_ai))
      = Some 0
   \<and> map_option confidence (response_of
        (analyze sample_engine True new_year_2025 ai_no_confidence [customer_A1] ''account_closure''
           options_ai))
      = Some ''ai-enhanced''
   \<and> map_option aiError (response_of
        (analyze sample_engine True new_year_2025 ai_no_confidence [customer_A1] ''account_closure''
           options_ai))
      = Some None
   \<and> analyze_route sample_engine True new_year_2025 ai_no_confidence request_A1
      = analyze sample_engine True new_year_2025 ai_no_confidence [customer_A1] ''account_closure''
          options_ai"
proof -
  have "map_option aiError (response_of
        (analyze sample_engine True new_year_2025 ai_no_list [customer_A1] ''account_closure'' options_ai))
      = Some None"
    unfolding analyze_with_scoring [OF called_A1]
    by (simp add: ai_enhance_def ai_no_list_def response_of_def rule_based_result_def Let_def)
  moreover have "map_option aiEnhanced (response_of
        (analyze sample_engine True new_year_2025 ai_null_entry [customer_A1] ''account_closure'' options_ai))
      = Some True"
    unfolding null_entry_result by simp
  moreover have
    "finalMatches (rule_based_result sample_engine new_year_2025 [customer_A1] ''account_closure'') = 1"
    by (simp add: rule_based_result_def A1_matches)
  ultimately show ?thesis
    unfolding no_confidence_result route_A1
    using called_A1 by (simp add: rule_based_result_def)
qed

text \<open>
  The last case is the general one: whenever the service is called and returns an
  analysis list without a null entry, the handler takes it as a scoring result, whatever
  the entries hold, and the result is not the rule-based one.
\<close>

lemma returned_list_is_not_a_failure:
  assumes "scoring_called options apiKey (rule_based_matches E now cs it)"
      and "ai (take 100 (rule_based_matches E now cs it)) it = AiReturns aiAnalysis"
      and "analysis aiAnalysis = Some entries"
      and "ItemNull \<notin> set entries"
  shows "\<exists>r. analyze E apiKey now ai cs it options = Inr r
           \<and> confidence (analysisResult r) = ''ai-enhanced''
           \<and> aiEnhanced (analysisResult r)
           \<and> aiError (analysisResult r) = None
           \<and> without_ai_fields (analysisResult r) \<noteq> rule_based_result E now cs it"
proof -
  have d: "without_ai_fields r \<noteq> rule_based_result E now cs it"
    if "confidence r = ''ai-enhanced''" for r
  proof
    assume "without_ai_fields r = rule_based_result E now cs it"
    then have "confidence (without_ai_fields r) = confidence (rule_based_result E now cs it)"
      by simp
    with that show False
      by (simp add: without_ai_fields_def rule_based_result_def)
  qed
  from ai_enhance_merged [of ai "rule_based_matches E now cs it" it aiAnalysis entries E options
      "(rule_based_result E now cs it) \<lparr> insights := [] \<rparr>", OF assms(2,3,4)] obtain aiMap where
    m: "ai_enhance E ai it options (rule_based_matches E now cs it)
          ((rule_based_result E now cs it) \<lparr> insights := [] \<rparr>)
        = (rule_based_result E now cs it) \<lparr> insights := [],
             aiEnhanced := True,
             aiInsights := Some (case summary aiAnalysis of None \<Rightarrow> [] | Some sm \<Rightarrow> sm),
             customers := map (merge_customer E aiMap) (rule_based_matches E now cs it),
             finalMatches := confident_count E (effective_threshold options)
                               (map (merge_customer E aiMap) (rule_based_matches E now cs it)),
             confidence := ''ai-enhanced'' \<rparr>"
    by blast
  have "\<exists>r. analyze E apiKey now ai cs it options = Inr r
           \<and> confidence (analysisResult r) = ''ai-enhanced''
           \<and> aiEnhanced (analysisResult r)
           \<and> aiError (analysisResult r) = None"
    unfolding analyze_with_scoring [OF assms(1)] m
    by (simp add: Let_def rule_based_result_def)
  with d show ?thesis
    by blast
qed















text \<open>
  The schema of the route has no key \<open>minConfidence\<close>: its key is
  \<open>confidenceThreshold\<close>, which the handler does not read, and a request with a key
  outside the schema is refused. So the threshold of the handler is 0.7 on every request
  the route admits, whatever \<open>confidenceThreshold\<close> the request carries.
\<close>

lemma validated_threshold_is_default:
  assumes "validateAnalysisRequest req = Inr body"
  shows "effective_threshold (body_options body) = JNum (7 / 10)"
  using assms
  by (auto simp: validateAnalysisRequest_def effective_threshold_def options_value_def field_def
      split: if_splits jsval.splits option.splits)

section \<open>E-mail dispatch\<close>

lemma send_loop_eq:
  "send_loop sendLetter i cs rs
   = rs @ map (\<lambda>p. email_result_for sendLetter (fst p) (snd p)) (zip [i ..< i + length cs] cs)"
proof (induction cs arbitrary: i rs)
  case Nil
  then show ?case by simp
next
  case (Cons c cs)
  have "[i ..< i + length (c # cs)] = i # [Suc i ..< Suc i + length cs]"
    by (simp add: upt_rec)
  with Cons [of "Suc i" "rs @ [email_result_for sendLetter i c]"] show ?case
    by simp
qed

lemma results_eq:
  "results (send_emails sendLetter cs)
   = map (\<lambda>p. email_result_for sendLetter (fst p) (snd p)) (zip [0 ..< length cs] cs)"
  by (simp add: send_emails_def Let_def send_loop_eq)

lemma status_of_result:
  "er_status (email_result_for sendLetter i c) = status_for sendLetter i c"
  by (simp add: email_result_for_def status_for_def blank_iff split: mailer_outcome.splits)

lemma three_way_count:
  assumes "list_all (\<lambda>s. s = ''sent'' \<or> s = ''failed'' \<or> s = ''skipped'') ss"
  shows "length (filter (\<lambda>s. s = ''sent'') ss) + length (filter (\<lambda>s. s = ''failed'') ss)
         + length (filter (\<lambda>s. s = ''skipped'') ss) = length ss"
  using assms by (induction ss) auto

lemma status_for_cases:
  "status_for sendLetter i c = ''sent'' \<or> status_for sendLetter i c = ''failed''
   \<or> status_for sendLetter i c = ''skipped''"
  by (simp add: status_for_def split: mailer_outcome.splits)

lemma filter_status_length:
  "length (filter (\<lambda>r. er_status r = s) rs) = length (filter (\<lambda>t. t = s) (map er_status rs))"
  by (induction rs) auto

text \<open>
  Claim C10. For every list of customers and every combination of per-customer outcomes
  (skipped for lack of an address, mailer success, mailer failure), the dispatch
  produces exactly one result per customer, in order, with the status of that customer's
  outcome; \<open>total\<close> is the length of the input and equals \<open>sent + failed + skipped\<close>,
  and each counter is the number of results of its status.
\<close>

theorem email_results_account_for_every_customer:
  "length (results (send_emails sendLetter cs)) = length cs
   \<and> map er_status (results (send_emails sendLetter cs))
       = map (\<lambda>p. status_for sendLetter (fst p) (snd p)) (zip [0 ..< length cs] cs)
   \<and> total (statistics (send_emails sendLetter cs)) = length cs
   \<and> sent (statistics (send_emails sendLetter cs))
       + failed (statistics (send_emails sendLetter cs))
       + skipped (statistics (send_emails sendLetter cs)) = length cs
   \<and> sent (statistics (send_emails sendLetter cs))
       = length (filter (\<lambda>r. er_status r = ''sent'') (results (send_emails sendLetter cs)))
   \<and> failed (statistics (send_emails sendLetter cs))
       = length (filter (\<lambda>r. er_status r = ''failed'') (results (send_emails sendLetter cs)))
   \<and> skipped (statistics (send_emails sendLetter cs))
       = length (filter (\<lambda>r. er_status r = ''skipped'') (results (send_emails sendLetter cs)))"
proof -
  let ?rs = "results (send_emails sendLetter cs)"
  let ?ss = "map er_status ?rs"
  have len: "length ?rs = length cs"
    by (simp add: results_eq)
  have st: "?ss = map (\<lambda>p. status_for sendLetter (fst p) (snd p)) (zip [0 ..< length cs] cs)"
    by (simp add: results_eq status_of_result comp_def)
  have "list_all (\<lambda>s. s = ''sent'' \<or> s = ''failed'' \<or> s = ''skipped'') ?ss"
    unfolding st by (simp add: list_all_iff status_for_cases)
  from three_way_count [OF this] len
  have sum: "length (filter (\<lambda>r. er_status r = ''sent'') ?rs)
             + length (filter (\<lambda>r. er_status r = ''failed'') ?rs)
             + length (filter (\<lambda>r. er_status r = ''skipped'') ?rs) = length cs"
    by (simp add: filter_status_length)
  have stats: "statistics (send_emails sendLetter cs)
               = \<lparr> total = length cs,
                   sent = length (filter (\<lambda>r. er_status r = ''sent'') ?rs),
                   failed = length (filter (\<lambda>r. er_status r = ''failed'') ?rs),
                   skipped = length (filter (\<lambda>r. er_status r = ''skipped'') ?rs) \<rparr>"
    by (simp add: send_emails_def Let_def)
  from len st sum show ?thesis
    by (simp add: stats)
qed




section \<open>Letter generation\<close>

lemma generate_loop_eq:
  "generate_loop R P it msg g i cs acc
   = (fst acc @ List.map_filter (letter_of R P it msg g) (enumerate i cs),
      snd acc @ List.map_filter (error_of R it msg) cs)"
proof (induction cs arbitrary: i acc)
  case Nil
  then show ?case by (simp add: List.map_filter_simps)
next
  case (Cons c cs)
  show ?case
    by (cases "R c it msg")
       (simp_all add: Cons List.map_filter_simps letter_of_def error_of_def)
qed

lemma map_filter_length:
  "length (List.map_filter f xs) = length (filter (\<lambda>x. f x \<noteq> None) xs)"
  by (simp add: List.map_filter_def)

lemma error_of_None: "(\<exists>y. error_of R it msg c = Some y) = render_fails R it msg c"
  by (simp add: error_of_def render_fails_def split: sum.splits)

lemma letter_of_None:
  "(\<exists>y. letter_of R P it msg g p = Some y) = (\<not> render_fails R it msg (snd p))"
  by (simp add: letter_of_def render_fails_def split: sum.splits)

lemma filter_enumerate_snd:
  "length (filter (\<lambda>p. Q (snd p)) (enumerate i cs)) = length (filter Q cs)"
  by (induction cs arbitrary: i) simp_all

lemma letters_eq:
  "letters (generate_letters R P cs it msg g)
   = List.map_filter (letter_of R P it msg g) (enumerate 0 cs)"
  by (simp add: generate_letters_def Let_def generate_loop_eq)

lemma failed_letters_eq:
  "failed_letters (letter_stats (generate_letters R P cs it msg g))
   = length (filter (render_fails R it msg) cs)"
  by (simp add: generate_letters_def Let_def generate_loop_eq map_filter_length error_of_None)

lemma successful_eq:
  "successful (letter_stats (generate_letters R P cs it msg g))
   = length (filter (\<lambda>c. \<not> render_fails R it msg c) cs)"
proof -
  have "length (filter (\<lambda>p. \<not> render_fails R it msg (snd p)) (enumerate 0 cs))
        = length (filter (\<lambda>c. \<not> render_fails R it msg c) cs)"
    by (rule filter_enumerate_snd)
  then show ?thesis
    by (simp add: generate_letters_def Let_def generate_loop_eq map_filter_length letter_of_None)
qed

text \<open>
  Claim C9. With PDF output requested, a failure of the PDF renderer for a customer
  whose letter text was rendered leaves that customer in the list of successful
  letters, with the subject and content of the rendered letter and the renderer's
  message as \<open>pdfError\<close>. The failed items are exactly the customers for which template
  rendering failed.
\<close>

theorem pdf_failure_keeps_letter_text:
  assumes "i < length cs"
      and "generateLetterContent (cs ! i) issueType customMessage = Inr letterData"
      and "generateLetterPDF (ld_content letterData) (cs ! i) = Inl pdfMessage"
  shows "letter_for generateLetterPDF True i (cs ! i) letterData
           \<in> set (letters (generate_letters generateLetterContent generateLetterPDF cs
                             issueType customMessage True))
       \<and> subject (letter_for generateLetterPDF True i (cs ! i) letterData) = ld_subject letterData
       \<and> content (letter_for generateLetterPDF True i (cs ! i) letterData) = ld_content letterData
       \<and> pdfError (letter_for generateLetterPDF True i (cs ! i) letterData) = Some pdfMessage
       \<and> failed_letters (letter_stats (generate_letters generateLetterContent generateLetterPDF cs
                             issueType customMessage True))
           = length (filter (render_fails generateLetterContent issueType customMessage) cs)
       \<and> successful (letter_stats (generate_letters generateLetterContent generateLetterPDF cs
                             issueType customMessage True))
           = length (filter (\<lambda>c. \<not> render_fails generateLetterContent issueType customMessage c) cs)
       \<and> \<not> render_fails generateLetterContent issueType customMessage (cs ! i)"
proof -
  let ?l = "letter_for generateLetterPDF True i (cs ! i) letterData"
  from assms(1) have "(i, cs ! i) \<in> set (enumerate 0 cs)"
    by (simp add: in_set_enumerate_eq)
  moreover from assms(2)
  have "letter_of generateLetterContent generateLetterPDF issueType customMessage True (i, cs ! i)
        = Some ?l"
    by (simp add: letter_of_def)
  ultimately have m: "?l \<in> set (letters (generate_letters generateLetterContent generateLetterPDF cs
                             issueType customMessage True))"
    unfolding letters_eq by (force simp: List.map_filter_def)
  from assms(3) have f: "subject ?l = ld_subject letterData" "content ?l = ld_content letterData"
      "pdfError ?l = Some pdfMessage"
    by (simp_all add: letter_for_def Let_def)
  from assms(2) have n: "\<not> render_fails generateLetterContent issueType customMessage (cs ! i)"
    by (simp add: render_fails_def)
  from m f n show ?thesis
    by (simp add: failed_letters_eq successful_eq)
qed

theorem pdf_failure_keeps_letter_text_witness:
  "(0 :: nat) < length [mail_customer ''SBIN0001001'' ''amit@example.com'']
   \<and> letters (generate_letters render_sample pdf_down
        [mail_customer ''SBIN0001001'' ''amit@example.com''] ''account_closure'' [] True)
       = [\<lparr> customerId = JStr ''SBIN0001001'', customerName = JStr ''Customer'',
            subject = ''Important Notice - Account Status Review'',
            content = ''STATE BANK OF INDIA'', urgency = ''high'',
            pdfBase64 = None, pdfSize = None,
            pdfError = Some ''PDF generation failed: out of memory'' \<rparr>]
   \<and> failed_letters (letter_stats (generate_letters render_sample pdf_down
        [mail_customer ''SBIN0001001'' ''amit@example.com''] ''account_closure'' [] True)) = 0
   \<and> letter_for pdf_down True 0 (mail_customer ''SBIN0001001'' ''amit@example.com'') sample_letter
       \<in> set (letters (generate_letters render_sample pdf_down
             [mail_customer ''SBIN0001001'' ''amit@example.com''] ''account_closure'' [] True))"
proof -
  have a: "(0 :: nat) < length [mail_customer ''SBIN0001001'' ''amit@example.com'']"
    by simp
  have b: "render_sample ([mail_customer ''SBIN0001001'' ''amit@example.com''] ! 0)
             ''account_closure'' [] = Inr sample_letter"
    by (simp add: render_sample_def)
  have c: "pdf_down (ld_content sample_letter)
             ([mail_customer ''SBIN0001001'' ''amit@example.com''] ! 0)
           = Inl ''PDF generation failed: out of memory''"
    by (simp add: pdf_down_def)
  have l: "letters (generate_letters render_sample pdf_down
        [mail_customer ''SBIN0001001'' ''amit@example.com''] ''account_closure'' [] True)
       = [\<lparr> customerId = JStr ''SBIN0001001'', customerName = JStr ''Customer'',
            subject = ''Important Notice - Account Status Review'',
            content = ''STATE BANK OF INDIA'', urgency = ''high'',
            pdfBase64 = None, pdfSize = None,
            pdfError = Some ''PDF generation failed: out of memory'' \<rparr>]"
    by (simp add: generate_letters_def Let_def render_sample_def pdf_down_def letter_for_def
        sample_letter_def mail_customer_def field_def js_or_def)
  have r: "render_fails render_sample ''account_closure'' []
             (mail_customer ''SBIN0001001'' ''amit@example.com'') = False"
    by (simp add: render_fails_def render_sample_def)
  from pdf_failure_keeps_letter_text [of 0 "[mail_customer ''SBIN0001001'' ''amit@example.com'']"
      render_sample "''account_closure''" "[]" sample_letter pdf_down
      "''PDF generation failed: out of memory''", OF a b c] a l r show ?thesis
    by simp
qed

end
